theory Spec2Isabelle
  imports Main "HOL-Library.Sublist"
begin

section \<open>The service scaffolder \<open>scripts/create-service.py\<close>\<close>

text \<open>
  The script takes a service name and a port, refuses to touch an existing destination,
  creates five directories and writes six files rendered from fixed templates.
  The model below follows the script statement by statement. The file system and the
  standard output are an explicit state; \<open>sys.exit\<close> and an uncaught exception end
  the run with a status.

  Python strings are modelled as \<open>string\<close>: a list of characters with code points
  below 256. The workspace root \<open>Path(__file__).parent.parent\<close> is a parameter, given as
  the list of the components of an absolute path. Paths are POSIX paths. What the file
  holds is the text written to it: the encoding of that text into bytes, and with it a
  text the locale cannot encode, is outside the model.
\<close>

subsection \<open>Python strings\<close>

definition nl :: char where
  "nl = CHR 0x0A"

text \<open>Every line of a triple-quoted template ends with a newline.\<close>

definition unlines :: "string list \<Rightarrow> string" where
  "unlines ls = concat (map (\<lambda>l. l @ [nl]) ls)"

definition is_lower :: "char \<Rightarrow> bool" where
  "is_lower c = (97 \<le> (of_char c :: nat) \<and> (of_char c :: nat) \<le> 122)"

definition is_upper :: "char \<Rightarrow> bool" where
  "is_upper c = (65 \<le> (of_char c :: nat) \<and> (of_char c :: nat) \<le> 90)"

definition upper_char :: "char \<Rightarrow> char" where
  "upper_char c = (if is_lower c then char_of ((of_char c :: nat) - 32) else c)"

definition lower_char :: "char \<Rightarrow> char" where
  "lower_char c = (if is_upper c then char_of ((of_char c :: nat) + 32) else c)"

text \<open>
  \<open>str.upper()\<close> and \<open>str.title()\<close> on ASCII text. \<open>title\<close> upper-cases a letter that
  does not follow a letter and lower-cases one that does. Characters outside ASCII are
  left as they are: Python's Unicode case mapping for them is not modelled.
\<close>

definition py_upper :: "string \<Rightarrow> string" where
  "py_upper s = map upper_char s"

fun title_from :: "bool \<Rightarrow> string \<Rightarrow> string" where
  "title_from previous_is_cased [] = []"
| "title_from previous_is_cased (c # cs) =
     (if previous_is_cased then lower_char c else upper_char c)
       # title_from (is_lower c \<or> is_upper c) cs"

definition py_title :: "string \<Rightarrow> string" where
  "py_title s = title_from False s"

text \<open>
  The decimal rendering of an integer, as \<open>f"{port}"\<close> and \<open>str(port)\<close> give it. The
  conversion fails for an integer of more than 4300 digits; \<open>int\<close> below accepts none, so
  the port the main block passes on is never one.
\<close>

definition digit_char :: "nat \<Rightarrow> char" where
  "digit_char d =
     (if d = 0 then CHR ''0'' else if d = 1 then CHR ''1'' else if d = 2 then CHR ''2''
      else if d = 3 then CHR ''3'' else if d = 4 then CHR ''4'' else if d = 5 then CHR ''5''
      else if d = 6 then CHR ''6'' else if d = 7 then CHR ''7'' else if d = 8 then CHR ''8''
      else CHR ''9'')"

fun digits :: "nat \<Rightarrow> string" where
  "digits n = (if n < 10 then [digit_char n] else digits (n div 10) @ [digit_char (n mod 10)])"

declare digits.simps [simp del]

definition py_str :: "int \<Rightarrow> string" where
  "py_str i = (if i < 0 then CHR ''-'' # digits (nat (- i)) else digits (nat i))"

text \<open>
  \<open>int(s)\<close> on a string: surrounding whitespace is dropped (the six ASCII whitespace
  characters and, above ASCII, the next-line character and the no-break space), one sign
  is allowed, and the rest is decimal digits, with single underscores allowed between
  digits. A string with more digits than \<open>sys.int_info.default_max_str_digits\<close>, 4300, is
  refused, whatever else it holds. \<open>None\<close> stands for \<open>ValueError\<close>.
\<close>

definition max_str_digits :: nat where
  "max_str_digits = 4300"

definition is_space :: "char \<Rightarrow> bool" where
  "is_space c =
     (let n = (of_char c :: nat)
      in (9 \<le> n \<and> n \<le> 13) \<or> n = 32 \<or> n = 133 \<or> n = 160)"

definition is_digit :: "char \<Rightarrow> bool" where
  "is_digit c = (48 \<le> (of_char c :: nat) \<and> (of_char c :: nat) \<le> 57)"

definition strip :: "string \<Rightarrow> string" where
  "strip s = rev (dropWhile is_space (rev (dropWhile is_space s)))"

fun parse_digits :: "bool \<Rightarrow> nat \<Rightarrow> string \<Rightarrow> nat option" where
  "parse_digits after_digit acc [] = (if after_digit then Some acc else None)"
| "parse_digits after_digit acc (c # cs) =
     (if is_digit c then parse_digits True (10 * acc + ((of_char c :: nat) - 48)) cs
      else if c = CHR ''_'' \<and> after_digit then parse_digits False acc cs
      else None)"

definition py_int :: "string \<Rightarrow> int option" where
  "py_int s =
     (if max_str_digits < length (filter is_digit s) then None
      else
        (case strip s of
           [] \<Rightarrow> None
         | c # cs \<Rightarrow>
             if c = CHR ''-'' then map_option (\<lambda>n. - int n) (parse_digits False 0 cs)
             else if c = CHR ''+'' then map_option int (parse_digits False 0 cs)
             else map_option int (parse_digits False 0 (c # cs))))"

subsection \<open>\<open>json.dump\<close> with \<open>indent=2\<close>\<close>

text \<open>
  The values the script serialises are strings, lists and dictionaries (in insertion
  order). Strings are written as \<open>json.dumps\<close> writes them with its default
  \<open>ensure_ascii=True\<close>: printable ASCII stays, the quote and the backslash get a
  backslash, the usual control characters get their short escapes, and everything else
  becomes \<open>\u00xx\<close>.
\<close>

datatype pyval = PStr string | PList "pyval list" | PDict "(string \<times> pyval) list"

definition hex_char :: "nat \<Rightarrow> char" where
  "hex_char d =
     (if d < 10 then digit_char d else if d = 10 then CHR ''a'' else if d = 11 then CHR ''b''
      else if d = 12 then CHR ''c'' else if d = 13 then CHR ''d'' else if d = 14 then CHR ''e''
      else CHR ''f'')"

definition escape_char :: "char \<Rightarrow> string" where
  "escape_char c =
     (if c = CHR 0x5C then [CHR 0x5C, CHR 0x5C]
      else if c = CHR 0x22 then [CHR 0x5C, CHR 0x22]
      else if c = CHR 0x08 then [CHR 0x5C, CHR ''b'']
      else if c = CHR 0x0C then [CHR 0x5C, CHR ''f'']
      else if c = CHR 0x0A then [CHR 0x5C, CHR ''n'']
      else if c = CHR 0x0D then [CHR 0x5C, CHR ''r'']
      else if c = CHR 0x09 then [CHR 0x5C, CHR ''t'']
      else if 32 \<le> (of_char c :: nat) \<and> (of_char c :: nat) \<le> 126 then [c]
      else [CHR 0x5C, CHR ''u'', CHR ''0'', CHR ''0'',
            hex_char ((of_char c :: nat) div 16), hex_char ((of_char c :: nat) mod 16)])"

definition encode_str :: "string \<Rightarrow> string" where
  "encode_str s = [CHR 0x22] @ concat (map escape_char s) @ [CHR 0x22]"

definition newline_indent :: "nat \<Rightarrow> nat \<Rightarrow> string" where
  "newline_indent indent level = nl # replicate (indent * level) CHR '' ''"

fun join :: "string \<Rightarrow> string list \<Rightarrow> string" where
  "join sep [] = []"
| "join sep [x] = x"
| "join sep (x # y # ys) = x @ sep @ join sep (y # ys)"

fun json_dumps :: "nat \<Rightarrow> nat \<Rightarrow> pyval \<Rightarrow> string"
  and json_items :: "nat \<Rightarrow> nat \<Rightarrow> pyval list \<Rightarrow> string list"
  and json_pairs :: "nat \<Rightarrow> nat \<Rightarrow> (string \<times> pyval) list \<Rightarrow> string list" where
  "json_dumps indent level (PStr s) = encode_str s"
| "json_dumps indent level (PList xs) =
     (if xs = [] then ''[]''
      else ''['' @ newline_indent indent (level + 1)
        @ join ('','' @ newline_indent indent (level + 1)) (json_items indent (level + 1) xs)
        @ newline_indent indent level @ '']'')"
| "json_dumps indent level (PDict kvs) =
     (if kvs = [] then ''{}''
      else ''{'' @ newline_indent indent (level + 1)
        @ join ('','' @ newline_indent indent (level + 1)) (json_pairs indent (level + 1) kvs)
        @ newline_indent indent level @ ''}'')"
| "json_items indent level [] = []"
| "json_items indent level (x # xs) = json_dumps indent level x # json_items indent level xs"
| "json_pairs indent level [] = []"
| "json_pairs indent level ((k, v) # kvs) =
     (encode_str k @ '': '' @ json_dumps indent level v) # json_pairs indent level kvs"

subsection \<open>The file system\<close>

text \<open>
  A path is the list of its components below the file system's root, and the file system
  maps a path to what is there: a directory, a regular file with its text, or a dangling
  symbolic link. \<open>Dangling\<close> stands for a link whose target is in a directory that does
  not exist, outside everything the script touches: the entry is there, so nothing can
  be made in its place, but every lookup that follows the link finds nothing. Links that
  lead somewhere are not modelled, nor are permissions, quotas and limits on the length
  of a name: the only failures are those of the lookup itself. The errors are those
  Python raises as \<open>FileNotFoundError\<close>, \<open>NotADirectoryError\<close>, \<open>FileExistsError\<close> and
  \<open>IsADirectoryError\<close>.
\<close>

datatype node = Dir | File string | Dangling

type_synonym path = "string list"

type_synonym fs = "path \<Rightarrow> node option"

datatype oserror = ENOENT | ENOTDIR | EEXIST | EISDIR

text \<open>Walking to an entry needs every directory above it, from the root down.\<close>

primrec check_dirs :: "fs \<Rightarrow> path list \<Rightarrow> oserror option" where
  "check_dirs f [] = None"
| "check_dirs f (q # qs) =
     (case f q of
        Some Dir \<Rightarrow> check_dirs f qs
      | Some (File _) \<Rightarrow> Some ENOTDIR
      | Some Dangling \<Rightarrow> Some ENOENT
      | None \<Rightarrow> Some ENOENT)"

definition above :: "path \<Rightarrow> path list" where
  "above p = butlast (prefixes p)"

text \<open>\<open>os.stat\<close> follows a link, so it finds nothing at a dangling one.\<close>

definition os_stat :: "fs \<Rightarrow> path \<Rightarrow> oserror + node" where
  "os_stat f p =
     (case check_dirs f (above p) of
        Some e \<Rightarrow> Inl e
      | None \<Rightarrow>
          (case f p of
             None \<Rightarrow> Inl ENOENT
           | Some Dangling \<Rightarrow> Inl ENOENT
           | Some n \<Rightarrow> Inr n))"

text \<open>\<open>Path.exists()\<close> and \<open>Path.is_dir()\<close> answer \<open>False\<close> when the lookup fails.\<close>

definition path_exists :: "fs \<Rightarrow> path \<Rightarrow> bool" where
  "path_exists f p = (case os_stat f p of Inr _ \<Rightarrow> True | Inl _ \<Rightarrow> False)"

definition is_dir :: "fs \<Rightarrow> path \<Rightarrow> bool" where
  "is_dir f p = (os_stat f p = Inr Dir)"

text \<open>\<open>os.mkdir\<close> does not follow a link: any entry at the path is in its way.\<close>

definition os_mkdir :: "fs \<Rightarrow> path \<Rightarrow> oserror + fs" where
  "os_mkdir f p =
     (case check_dirs f (above p) of
        Some e \<Rightarrow> Inl e
      | None \<Rightarrow> if f p \<noteq> None then Inl EEXIST else Inr (f(p \<mapsto> Dir)))"

text \<open>
  \<open>Path.mkdir(parents=False, exist_ok=True)\<close>: \<open>FileNotFoundError\<close> is raised again, any
  other error is dropped when the path is a directory.
\<close>

definition mkdir_exist_ok :: "fs \<Rightarrow> path \<Rightarrow> oserror + fs" where
  "mkdir_exist_ok f p =
     (case os_mkdir f p of
        Inr f' \<Rightarrow> Inr f'
      | Inl ENOENT \<Rightarrow> Inl ENOENT
      | Inl e \<Rightarrow> if is_dir f p then Inr f else Inl e)"

text \<open>
  \<open>Path.mkdir(parents=True, exist_ok=True)\<close>: on \<open>FileNotFoundError\<close> the parent is made
  the same way and the directory is tried once more.
\<close>

function mkdir_parents :: "fs \<Rightarrow> path \<Rightarrow> oserror + fs" where
  "mkdir_parents f p =
     (case os_mkdir f p of
        Inr f' \<Rightarrow> Inr f'
      | Inl ENOENT \<Rightarrow>
          if p = [] then Inl ENOENT
          else (case mkdir_parents f (butlast p) of
                  Inl e \<Rightarrow> Inl e
                | Inr f1 \<Rightarrow> mkdir_exist_ok f1 p)
      | Inl e \<Rightarrow> if is_dir f p then Inr f else Inl e)"
  by pat_completeness auto
termination
  by (relation "measure (\<lambda>(f, p). length p)") auto

declare mkdir_parents.simps [simp del]

text \<open>
  \<open>open(p, "w")\<close> followed by one write: the file is created or replaced. Through a
  dangling link the file would be created at the link's target, whose directory is not
  there.
\<close>

definition open_write :: "fs \<Rightarrow> path \<Rightarrow> string \<Rightarrow> oserror + fs" where
  "open_write f p text =
     (case check_dirs f (above p) of
        Some e \<Rightarrow> Inl e
      | None \<Rightarrow>
          (case f p of
             Some Dir \<Rightarrow> Inl EISDIR
           | Some Dangling \<Rightarrow> Inl ENOENT
           | _ \<Rightarrow> if p = [] then Inl EISDIR else Inr (f(p \<mapsto> File text))))"

text \<open>\<open>str(path)\<close>.\<close>

definition path_str :: "path \<Rightarrow> string" where
  "path_str p = (if p = [] then ''/'' else concat (map (\<lambda>c. CHR ''/'' # c) p))"

subsection \<open>Statements\<close>

text \<open>
  The state of a run is the file system and the lines printed so far. A statement ends
  normally (\<open>Returned\<close>), by \<open>sys.exit(n)\<close>, or by an exception nothing catches; the
  interpreter turns the last into exit status 1.
\<close>

record world =
  files :: fs
  stdout :: "string list"

datatype status = Returned | SysExit int | Raised oserror

type_synonym stmt = "world \<Rightarrow> status \<times> world"

definition print :: "string \<Rightarrow> stmt" where
  "print s w = (Returned, w\<lparr>stdout := stdout w @ [s]\<rparr>)"

definition sys_exit :: "int \<Rightarrow> stmt" where
  "sys_exit n w = (SysExit n, w)"

definition mkdir :: "path \<Rightarrow> stmt" where
  "mkdir p w =
     (case mkdir_parents (files w) p of
        Inl e \<Rightarrow> (Raised e, w)
      | Inr f \<Rightarrow> (Returned, w\<lparr>files := f\<rparr>))"

definition write_file :: "path \<Rightarrow> string \<Rightarrow> stmt" where
  "write_file p text w =
     (case open_write (files w) p text of
        Inl e \<Rightarrow> (Raised e, w)
      | Inr f \<Rightarrow> (Returned, w\<lparr>files := f\<rparr>))"

text \<open>Statements in sequence: the first that does not end normally ends the run.\<close>

fun run :: "stmt list \<Rightarrow> stmt" where
  "run [] w = (Returned, w)"
| "run (s # ss) w = (case s w of (Returned, w') \<Rightarrow> run ss w' | r \<Rightarrow> r)"

definition exit_code :: "status \<Rightarrow> int" where
  "exit_code st = (case st of Returned \<Rightarrow> 0 | SysExit n \<Rightarrow> n | Raised e \<Rightarrow> 1)"

subsection \<open>The templates\<close>

definition package_json :: "string \<Rightarrow> pyval" where
  \<open>package_json service_name =
    PDict
    [(''name'', PStr (service_name @ ''-service'')),
     (''version'', PStr ''1.0.0''),
     (''description'', PStr []),
     (''main'', PStr ''index.js''),
     (''scripts'', PDict
        [(''start'', PStr ''node index.js''),
         (''dev'', PStr ''nodemon index.js'')]),
     (''keywords'', PList []),
     (''author'', PStr []),
     (''license'', PStr ''ISC''),
     (''type'', PStr ''module''),
     (''dependencies'', PDict
        [(''@shared/config'', PStr ''workspace:*''),
         (''@shared/utils'', PStr ''workspace:*''),
         (''@shared/providers'', PStr ''workspace:*''),
         (''@shared/middlewares'', PStr ''workspace:*''),
         (''@shared/cloudinary'', PStr ''workspace:*''),
         (''@shared/env-loader'', PStr ''workspace:*'')]),
     (''devDependencies'', PDict
        [(''nodemon'', PStr ''^3.1.11'')])]\<close>

definition env_content :: "string \<Rightarrow> int \<Rightarrow> string" where
  \<open>env_content service_name port =
    unlines
    [''# '',
     ''# '' @ py_upper service_name @ '' SERVICE - Specific Configuration'',
     ''# Loaded after root .env (can override common variables if needed)'',
     ''# '',
     [],
     ''# Server Port ('' @ py_title service_name @ '' Service)'',
     ''PORT='' @ py_str port]\<close>

definition index_js :: "int \<Rightarrow> string" where
  \<open>index_js port =
    unlines
    [''import "@shared/env-loader";'',
     ''import { database as connectDB } from "@shared/config";'',
     ''import createApp from "./config/express.config.js";'',
     [],
     ''const PORT = process.env.PORT || '' @ py_str port @ '';'',
     [],
     ''async function startServer() {'',
     ''  console.log("> Starting server...");'',
     [],
     ''  await connectDB();'',
     [],
     ''  const app = createApp();'',
     [],
     ''  app.listen(PORT, () => {'',
     ''    console.log(`> Server running on port ${PORT}`);'',
     ''  });'',
     ''}'',
     [],
     ''startServer().catch((error) => {'',
     ''  console.error("> Failed to start server:", error);'',
     ''  process.exit(1);'',
     ''});'']\<close>

definition express_config :: "string" where
  \<open>express_config =
    unlines
    [''import express from "express";'',
     ''import cors from "cors";'',
     ''import routes from "../index.route.js";'',
     [],
     ''export default function createApp() {'',
     ''  const app = express();'',
     [],
     ''  console.log("> Middleware configured");'',
     [],
     ''  app.use(cors());'',
     ''  app.use(express.json());'',
     ''  app.use(express.urlencoded({ extended: true }));'',
     [],
     ''  console.log("> Routes initialized");'',
     ''  app.use("/api", routes);'',
     [],
     ''  return app;'',
     ''}'']\<close>

definition index_route :: "string" where
  \<open>index_route =
    unlines
    [''import { Router } from "express";'',
     ''import { sendResponse } from "@shared/utils";'',
     [],
     ''const router = Router();'',
     [],
     ''/**'',
     '' * @route GET /api/health'',
     '' * @description Health check endpoint'',
     '' */'',
     ''router.get("/health", (req, res) => {'',
     ''  sendResponse(res, 200, "Server is running", { status: "ok" }, null);'',
     ''});'',
     [],
     ''// TODO: Add your routes here'',
     ''// Example:'',
     ''// import exampleRoutes from "./src/example/example.route.js";'',
     ''// router.use("/examples", exampleRoutes);'',
     [],
     ''export default router;'']\<close>

definition readme :: "string \<Rightarrow> int \<Rightarrow> string" where
  \<open>readme service_name port =
    unlines
    [''# '' @ py_title service_name @ '' Service'',
     [],
     ''Port: '' @ py_str port,
     [],
     ''## Running'',
     [],
     ''```bash'',
     ''pnpm --filter '' @ service_name @ ''-service start'',
     ''pnpm --filter '' @ service_name @ ''-service dev'',
     ''```'',
     [],
     ''## Health Check'',
     [],
     ''```bash'',
     ''curl http://localhost:'' @ py_str port @ ''/api/health'',
     ''```'']\<close>

subsection \<open>\<open>create_service\<close> and the main block\<close>

text \<open>
  \<open>service_dir = root / "services" / service_name\<close>. The \<open>/\<close> of \<open>pathlib\<close> reads its
  right operand as a path: it is cut at the slashes, empty components and \<open>.\<close> are
  dropped, and a name that starts with a slash is an absolute path, which replaces what
  stands on the left. A component \<open>..\<close> is kept as it is; the file system above takes it
  for a name like any other, so for such a name the model does not follow the script.
  (Nor does \<open>path_str\<close> show the second slash that \<open>str(path)\<close> keeps for a name that
  starts with exactly two.)
\<close>

fun split_at :: "char \<Rightarrow> string \<Rightarrow> string list" where
  "split_at sep [] = [[]]"
| "split_at sep (c # cs) =
     (if c = sep then [] # split_at sep cs
      else (case split_at sep cs of [] \<Rightarrow> [[c]] | l # ls \<Rightarrow> (c # l) # ls))"

definition parts :: "string \<Rightarrow> string list" where
  "parts s = filter (\<lambda>c. c \<noteq> [] \<and> c \<noteq> ''.'') (split_at CHR ''/'' s)"

definition joinpath :: "path \<Rightarrow> string \<Rightarrow> path" where
  "joinpath p s = (if s \<noteq> [] \<and> hd s = CHR ''/'' then parts s else p @ parts s)"

definition service_dir :: "path \<Rightarrow> string \<Rightarrow> path" where
  "service_dir root service_name = joinpath (joinpath root ''services'') service_name"

definition dirs :: "path \<Rightarrow> string \<Rightarrow> path list" where
  "dirs root service_name =
     [service_dir root service_name,
      service_dir root service_name @ [''src''],
      service_dir root service_name @ [''config''],
      service_dir root service_name @ [''models''],
      service_dir root service_name @ [''scripts'']]"

definition create_service :: "path \<Rightarrow> string \<Rightarrow> int \<Rightarrow> stmt" where
  \<open>create_service root service_name port w =
    (if path_exists (files w) (service_dir root service_name)
     then run
       [print (''Error: Service '' @ [CHR 0x27] @ service_name @ [CHR 0x27] @ '' already exists''),
        sys_exit 1] w
     else run
       ([print (''Creating service: '' @ service_name @ '' on port '' @ py_str port)]
        @ concat (map (\<lambda>d. [mkdir d, print (''Created: '' @ path_str d)])
            (dirs root service_name))
        @ [write_file (service_dir root service_name @ [''package.json''])
             (json_dumps 2 0 (package_json service_name)),
           print ''Created: package.json'',
           write_file (service_dir root service_name @ [''.env''])
             (env_content service_name port),
           print ''Created: .env'',
           write_file (service_dir root service_name @ [''index.js'']) (index_js port),
           print ''Created: index.js'',
           write_file (service_dir root service_name @ [''config'', ''express.config.js''])
             express_config,
           print ''Created: config/express.config.js'',
           write_file (service_dir root service_name @ [''index.route.js'']) index_route,
           print ''Created: index.route.js'',
           write_file (service_dir root service_name @ [''README.md''])
             (readme service_name port),
           print ''Created: README.md'',
           print ([nl] @ ''Service '' @ [CHR 0x27] @ service_name @ [CHR 0x27]
                  @ '' created successfully!''),
           print ([nl] @ ''Next steps:''),
           print (''1. cd '' @ [CHR 0x27] @ ''e:/AIB/Cleanse Ayurveda/microservices''
                  @ [CHR 0x27]),
           print ''2. pnpm install'',
           print (''3. pnpm --filter '' @ service_name @ ''-service dev'')]) w)\<close>

text \<open>
  The main block, on \<open>sys.argv\<close>. The routine it calls is a parameter of
  \<open>main_block\<close>, so that a property can say when the routine is not called: the outcome
  is then the same for every routine. \<open>main\<close> is the block as the script has it, calling
  \<open>create_service\<close>. The process ends with \<open>exit_code\<close> of the status.
\<close>

definition main_block :: "(string \<Rightarrow> int \<Rightarrow> stmt) \<Rightarrow> string list \<Rightarrow> stmt" where
  \<open>main_block scaffold argv w =
    (if length argv \<noteq> 3
     then run
       [print ''Usage: python scripts/create-service.py <service-name> <port>'',
        print ''Example: python scripts/create-service.py order 3003'',
        sys_exit 1] w
     else
       let service_name = argv ! 1
       in (case py_int (argv ! 2) of
             None \<Rightarrow> run [print ''Error: Port must be a number'', sys_exit 1] w
           | Some port \<Rightarrow> scaffold service_name port w))\<close>

definition main :: "path \<Rightarrow> string list \<Rightarrow> stmt" where
  "main root argv w = main_block (create_service root) argv w"

section \<open>Notions the properties are stated with\<close>

subsection \<open>Well-formed file systems and the result of a run\<close>

text \<open>
  In a real file system every entry lies in a directory and the root is a directory:
  \<open>tree\<close>. A path is \<open>unblocked\<close> when nothing but directories stands at it or above
  it, neither a regular file nor a dangling link, so that \<open>mkdir(parents=True)\<close> can
  reach it; \<open>made_dirs f p\<close> is \<open>f\<close> with the missing directories down to \<open>p\<close> made, and
  \<open>dirs_to f p\<close> says that \<open>p\<close> and everything above it is a directory.
\<close>

definition tree :: "fs \<Rightarrow> bool" where
  "tree f = (f [] = Some Dir \<and> (\<forall>p c. f (p @ [c]) \<noteq> None \<longrightarrow> f p = Some Dir))"

definition is_file :: "node option \<Rightarrow> bool" where
  "is_file n = (case n of Some (File _) \<Rightarrow> True | _ \<Rightarrow> False)"

definition unblocked :: "fs \<Rightarrow> path \<Rightarrow> bool" where
  "unblocked f p = list_all (\<lambda>q. \<not> is_file (f q) \<and> f q \<noteq> Some Dangling) (prefixes p)"

definition made_dirs :: "fs \<Rightarrow> path \<Rightarrow> fs" where
  "made_dirs f p = (\<lambda>q. if prefix q p \<and> f q = None then Some Dir else f q)"

definition dirs_to :: "fs \<Rightarrow> path \<Rightarrow> bool" where
  "dirs_to f p = list_all (\<lambda>q. f q = Some Dir) (prefixes p)"

definition regular_files :: "fs \<Rightarrow> path set" where
  "regular_files f = {p. is_file (f p)}"

definition directories :: "fs \<Rightarrow> path set" where
  "directories f = {p. f p = Some Dir}"

text \<open>
  The file system a run on a fresh destination leaves: the directories above the
  service directory made where they were missing, the five directories of the skeleton
  and the six files.
\<close>

definition scaffolded :: "fs \<Rightarrow> path \<Rightarrow> string \<Rightarrow> int \<Rightarrow> fs" where
  "scaffolded f root service_name port =
     (made_dirs f (butlast (service_dir root service_name)))
       (service_dir root service_name \<mapsto> Dir,
        service_dir root service_name @ [''src''] \<mapsto> Dir,
        service_dir root service_name @ [''config''] \<mapsto> Dir,
        service_dir root service_name @ [''models''] \<mapsto> Dir,
        service_dir root service_name @ [''scripts''] \<mapsto> Dir,
        service_dir root service_name @ [''package.json'']
          \<mapsto> File (json_dumps 2 0 (package_json service_name)),
        service_dir root service_name @ [''.env''] \<mapsto> File (env_content service_name port),
        service_dir root service_name @ [''index.js''] \<mapsto> File (index_js port),
        service_dir root service_name @ [''config'', ''express.config.js'']
          \<mapsto> File express_config,
        service_dir root service_name @ [''index.route.js''] \<mapsto> File index_route,
        service_dir root service_name @ [''README.md'']
          \<mapsto> File (readme service_name port))"

text \<open>
  A directory name: one path component, which is not empty, not \<open>.\<close> or \<open>..\<close>, has no
  slash and no NUL character, and takes at most 255 bytes, the limit of the usual file
  systems, in UTF-8 (two bytes for a character above ASCII).
\<close>

definition utf8_length :: "string \<Rightarrow> nat" where
  "utf8_length s = sum_list (map (\<lambda>c. if (of_char c :: nat) < 128 then 1 else 2) s)"

definition dir_name :: "string \<Rightarrow> bool" where
  "dir_name s =
     (s \<noteq> [] \<and> s \<noteq> ''.'' \<and> s \<noteq> ''..'' \<and> CHR ''/'' \<notin> set s \<and> CHR 0x00 \<notin> set s
      \<and> utf8_length s \<le> 255)"

text \<open>
  A name in ASCII: for such a name \<open>py_upper\<close> and \<open>py_title\<close> are Python's \<open>upper\<close> and
  \<open>title\<close>, so the model has the texts of \<open>.env\<close> and \<open>README.md\<close> as the script writes
  them.
\<close>

definition ascii_name :: "string \<Rightarrow> bool" where
  "ascii_name s = list_all (\<lambda>c. (of_char c :: nat) < 128) s"

subsection \<open>Decimal numerals\<close>

text \<open>
  The decimal rendering of an integer is the numeral that stands for it: digits without
  a leading zero (\<open>0\<close> itself apart), after a minus sign when the integer is negative.
  \<open>read_decimal\<close> reads such a numeral and refuses every other string, so an integer has
  one rendering only.
\<close>

definition digit_value :: "char \<Rightarrow> nat" where
  "digit_value c = length (takeWhile (\<lambda>d. d \<noteq> c) ''0123456789'')"

definition numeral_value :: "string \<Rightarrow> nat" where
  "numeral_value s = foldl (\<lambda>n c. 10 * n + digit_value c) 0 s"

definition natural_numeral :: "string \<Rightarrow> bool" where
  "natural_numeral s =
     (s \<noteq> [] \<and> set s \<subseteq> set ''0123456789'' \<and> (s = ''0'' \<or> hd s \<noteq> CHR ''0''))"

definition read_decimal :: "string \<Rightarrow> int option" where
  "read_decimal s =
     (if s \<noteq> [] \<and> hd s = CHR ''-''
      then (if natural_numeral (tl s) \<and> tl s \<noteq> ''0''
            then Some (- int (numeral_value (tl s))) else None)
      else (if natural_numeral s then Some (int (numeral_value s)) else None))"

subsection \<open>Lines of a text\<close>

text \<open>The lines of a text are what stands between its newlines.\<close>

fun text_lines :: "string \<Rightarrow> string list" where
  "text_lines [] = [[]]"
| "text_lines (c # cs) =
     (if c = nl then [] # text_lines cs
      else (case text_lines cs of [] \<Rightarrow> [[c]] | l # ls \<Rightarrow> (c # l) # ls))"

subsection \<open>JSON texts\<close>

text \<open>
  A text is valid JSON when \<open>json_parse\<close> reads a value from it. The reader follows the
  grammar of RFC 8259 one character at a time, with a stack of the arrays and objects it
  is inside. A string is read into the list of its code points, a number is kept as
  written, and of two members of an object with the same name \<open>json_field\<close> gives the
  later one, as \<open>json.loads\<close> does.
\<close>

datatype json =
    JNull | JBool bool | JNumber string | JString "nat list"
  | JArray "json list" | JObject "(nat list \<times> json) list"

datatype frame =
    InArray "json list"
  | InObject "(nat list \<times> json) list"
  | AtKey "(nat list \<times> json) list" "nat list"

datatype numstate = NMinus | NZero | NInt | NDot | NFrac | NExp | NExpSign | NExpDigits

datatype mode =
    Value | FirstItem | FirstKey | NextKey | Colon | Next | Done json
  | Str bool "nat list" | Esc bool "nat list" | Hex bool "nat list" nat nat
  | Lit string json | Num numstate string

type_synonym pstate = "mode \<times> frame list"

definition json_ws :: "char \<Rightarrow> bool" where
  "json_ws c = (c = CHR '' '' \<or> c = CHR 0x09 \<or> c = CHR 0x0A \<or> c = CHR 0x0D)"

fun deliver :: "json \<Rightarrow> frame list \<Rightarrow> pstate option" where
  "deliver v [] = Some (Done v, [])"
| "deliver v (InArray xs # st) = Some (Next, InArray (xs @ [v]) # st)"
| "deliver v (AtKey kvs k # st) = Some (Next, InObject (kvs @ [(k, v)]) # st)"
| "deliver v (InObject kvs # st) = None"

definition start_value :: "char \<Rightarrow> frame list \<Rightarrow> pstate option" where
  "start_value c st =
     (if c = CHR ''{'' then Some (FirstKey, InObject [] # st)
      else if c = CHR ''['' then Some (FirstItem, InArray [] # st)
      else if c = CHR 0x22 then Some (Str False [], st)
      else if c = CHR ''t'' then Some (Lit ''rue'' (JBool True), st)
      else if c = CHR ''f'' then Some (Lit ''alse'' (JBool False), st)
      else if c = CHR ''n'' then Some (Lit ''ull'' JNull, st)
      else if c = CHR ''-'' then Some (Num NMinus [c], st)
      else if c = CHR ''0'' then Some (Num NZero [c], st)
      else if is_digit c then Some (Num NInt [c], st)
      else None)"

definition hex_val :: "char \<Rightarrow> nat option" where
  "hex_val c =
     (let n = (of_char c :: nat)
      in if 48 \<le> n \<and> n \<le> 57 then Some (n - 48)
         else if 97 \<le> n \<and> n \<le> 102 then Some (n - 87)
         else if 65 \<le> n \<and> n \<le> 70 then Some (n - 55)
         else None)"

definition unescape :: "char \<Rightarrow> nat option" where
  "unescape c =
     (if c = CHR 0x22 then Some 34 else if c = CHR 0x5C then Some 92
      else if c = CHR ''/'' then Some 47 else if c = CHR ''b'' then Some 8
      else if c = CHR ''f'' then Some 12 else if c = CHR ''n'' then Some 10
      else if c = CHR ''r'' then Some 13 else if c = CHR ''t'' then Some 9
      else None)"

fun num_step :: "numstate \<Rightarrow> char \<Rightarrow> numstate option" where
  "num_step NMinus c = (if c = CHR ''0'' then Some NZero else if is_digit c then Some NInt else None)"
| "num_step NZero c =
     (if c = CHR ''.'' then Some NDot else if c = CHR ''e'' \<or> c = CHR ''E'' then Some NExp else None)"
| "num_step NInt c =
     (if is_digit c then Some NInt else if c = CHR ''.'' then Some NDot
      else if c = CHR ''e'' \<or> c = CHR ''E'' then Some NExp else None)"
| "num_step NDot c = (if is_digit c then Some NFrac else None)"
| "num_step NFrac c =
     (if is_digit c then Some NFrac else if c = CHR ''e'' \<or> c = CHR ''E'' then Some NExp else None)"
| "num_step NExp c =
     (if c = CHR ''+'' \<or> c = CHR ''-'' then Some NExpSign
      else if is_digit c then Some NExpDigits else None)"
| "num_step NExpSign c = (if is_digit c then Some NExpDigits else None)"
| "num_step NExpDigits c = (if is_digit c then Some NExpDigits else None)"

definition num_final :: "numstate \<Rightarrow> bool" where
  "num_final ns = (ns = NZero \<or> ns = NInt \<or> ns = NFrac \<or> ns = NExpDigits)"

fun after_value :: "pstate \<Rightarrow> char \<Rightarrow> pstate option" where
  "after_value (Next, st) c =
     (if json_ws c then Some (Next, st)
      else if c = CHR '','' then
        (case st of
           InArray xs # rest \<Rightarrow> Some (Value, st)
         | InObject kvs # rest \<Rightarrow> Some (NextKey, st)
         | _ \<Rightarrow> None)
      else if c = CHR '']'' then
        (case st of InArray xs # rest \<Rightarrow> deliver (JArray xs) rest | _ \<Rightarrow> None)
      else if c = CHR ''}'' then
        (case st of InObject kvs # rest \<Rightarrow> deliver (JObject kvs) rest | _ \<Rightarrow> None)
      else None)"
| "after_value (Done v, st) c = (if json_ws c then Some (Done v, st) else None)"
| "after_value (m, st) c = None"

fun step :: "pstate \<Rightarrow> char \<Rightarrow> pstate option" where
  "step (Value, st) c = (if json_ws c then Some (Value, st) else start_value c st)"
| "step (FirstItem, st) c =
     (if json_ws c then Some (FirstItem, st)
      else if c = CHR '']'' then
        (case st of InArray xs # rest \<Rightarrow> deliver (JArray xs) rest | _ \<Rightarrow> None)
      else start_value c st)"
| "step (FirstKey, st) c =
     (if json_ws c then Some (FirstKey, st)
      else if c = CHR ''}'' then
        (case st of InObject kvs # rest \<Rightarrow> deliver (JObject kvs) rest | _ \<Rightarrow> None)
      else if c = CHR 0x22 then Some (Str True [], st)
      else None)"
| "step (NextKey, st) c =
     (if json_ws c then Some (NextKey, st)
      else if c = CHR 0x22 then Some (Str True [], st)
      else None)"
| "step (Colon, st) c =
     (if json_ws c then Some (Colon, st)
      else if c = CHR '':'' then Some (Value, st)
      else None)"
| "step (Next, st) c = after_value (Next, st) c"
| "step (Done v, st) c = after_value (Done v, st) c"
| "step (Str is_key acc, st) c =
     (if c = CHR 0x22 then
        (if is_key then
           (case st of InObject kvs # rest \<Rightarrow> Some (Colon, AtKey kvs acc # rest) | _ \<Rightarrow> None)
         else deliver (JString acc) st)
      else if c = CHR 0x5C then Some (Esc is_key acc, st)
      else if (of_char c :: nat) < 32 then None
      else Some (Str is_key (acc @ [of_char c]), st))"
| "step (Esc is_key acc, st) c =
     (if c = CHR ''u'' then Some (Hex is_key acc 4 0, st)
      else (case unescape c of
              Some n \<Rightarrow> Some (Str is_key (acc @ [n]), st)
            | None \<Rightarrow> None))"
| "step (Hex is_key acc left v, st) c =
     (case hex_val c of
        None \<Rightarrow> None
      | Some d \<Rightarrow>
          if left \<le> 1 then Some (Str is_key (acc @ [16 * v + d]), st)
          else Some (Hex is_key acc (left - 1) (16 * v + d), st))"
| "step (Lit rest v, st) c =
     (case rest of
        [] \<Rightarrow> None
      | r # rs \<Rightarrow>
          if c \<noteq> r then None
          else if rs = [] then deliver v st
          else Some (Lit rs v, st))"
| "step (Num ns digits_read, st) c =
     (case num_step ns c of
        Some ns' \<Rightarrow> Some (Num ns' (digits_read @ [c]), st)
      | None \<Rightarrow>
          if num_final ns then
            (case deliver (JNumber digits_read) st of
               Some s' \<Rightarrow> after_value s' c
             | None \<Rightarrow> None)
          else None)"

primrec steps :: "pstate \<Rightarrow> string \<Rightarrow> pstate option" where
  "steps s [] = Some s"
| "steps s (c # cs) = (case step s c of None \<Rightarrow> None | Some s' \<Rightarrow> steps s' cs)"

definition json_parse :: "string \<Rightarrow> json option" where
  "json_parse text =
     (case steps (Value, []) text of
        Some (Done v, []) \<Rightarrow> Some v
      | Some (Num ns digits_read, []) \<Rightarrow>
          if num_final ns then Some (JNumber digits_read) else None
      | _ \<Rightarrow> None)"

definition codes :: "string \<Rightarrow> nat list" where
  "codes s = map of_char s"

definition json_field :: "string \<Rightarrow> json \<Rightarrow> json option" where
  "json_field k v = (case v of JObject kvs \<Rightarrow> map_of (rev kvs) (codes k) | _ \<Rightarrow> None)"

text \<open>The value a serialised Python value stands for.\<close>

fun to_json :: "pyval \<Rightarrow> json" where
  "to_json (PStr s) = JString (codes s)"
| "to_json (PList xs) = JArray (map to_json xs)"
| "to_json (PDict kvs) = JObject (map (\<lambda>kv. (codes (fst kv), to_json (snd kv))) kvs)"

subsection \<open>Sample workspaces\<close>

text \<open>
  A workspace \<open>/ws\<close> without a services root, one with an empty services root, three
  where \<open>services/order\<close> is taken, by a directory, by a regular file and by a dangling
  link, and one where \<open>services\<close> itself is a regular file. \<open>long_port\<close> is a port
  argument of 4301 digits.
\<close>

definition ws_bare :: world where
  "ws_bare = \<lparr>files = [[] \<mapsto> Dir, [''ws''] \<mapsto> Dir], stdout = []\<rparr>"

definition ws_clean :: world where
  "ws_clean =
     \<lparr>files = [[] \<mapsto> Dir, [''ws''] \<mapsto> Dir, [''ws'', ''services''] \<mapsto> Dir], stdout = []\<rparr>"

definition ws_order_dir :: world where
  "ws_order_dir =
     \<lparr>files = [[] \<mapsto> Dir, [''ws''] \<mapsto> Dir, [''ws'', ''services''] \<mapsto> Dir,
               [''ws'', ''services'', ''order''] \<mapsto> Dir],
      stdout = []\<rparr>"

definition ws_order_file :: world where
  "ws_order_file =
     \<lparr>files = [[] \<mapsto> Dir, [''ws''] \<mapsto> Dir, [''ws'', ''services''] \<mapsto> Dir,
               [''ws'', ''services'', ''order''] \<mapsto> File ''notes''],
      stdout = []\<rparr>"

definition ws_order_link :: world where
  "ws_order_link =
     \<lparr>files = [[] \<mapsto> Dir, [''ws''] \<mapsto> Dir, [''ws'', ''services''] \<mapsto> Dir,
               [''ws'', ''services'', ''order''] \<mapsto> Dangling],
      stdout = []\<rparr>"

definition ws_services_file :: world where
  "ws_services_file =
     \<lparr>files = [[] \<mapsto> Dir, [''ws''] \<mapsto> Dir, [''ws'', ''services''] \<mapsto> File ''notes''],
      stdout = []\<rparr>"

definition long_port :: string where
  "long_port = replicate 4301 CHR ''1''"

section \<open>Lemmas\<close>

subsection \<open>Arguments and sample workspaces\<close>

lemma py_int_30a3: "py_int ''30a3'' = None"
  by (simp add: py_int_def max_str_digits_def strip_def is_space_def is_digit_def)

lemma py_int_3003: "py_int ''3003'' = Some 3003"
  by (simp add: py_int_def max_str_digits_def strip_def is_space_def is_digit_def)

lemma py_int_long_port: "py_int long_port = None"
  by (simp add: py_int_def max_str_digits_def long_port_def is_digit_def)

text \<open>One digit less and \<open>int\<close> accepts the argument.\<close>

lemma parse_digits_ones:
  "0 < n \<Longrightarrow> \<exists>v. parse_digits after_digit acc (replicate n CHR ''1'') = Some v"
proof (induction n arbitrary: after_digit acc)
  case 0
  then show ?case by simp
next
  case (Suc n)
  show ?case
  proof (cases n)
    case 0
    then show ?thesis by (simp add: is_digit_def)
  next
    case (Suc m)
    with Suc.IH [of True "10 * acc + (of_char CHR ''1'' - 48)"] show ?thesis
      by (simp add: is_digit_def)
  qed
qed

lemma py_int_4300_digits: "\<exists>v. py_int (replicate 4300 CHR ''1'') = Some v"
proof -
  have unfold: "replicate 4300 CHR ''1'' = CHR ''1'' # replicate 4299 CHR ''1''"
    by (simp flip: replicate_Suc)
  have "strip (replicate 4300 CHR ''1'') = replicate 4300 CHR ''1''"
    by (simp add: strip_def is_space_def)
  with parse_digits_ones [of 4300 False 0] show ?thesis
    by (simp add: py_int_def max_str_digits_def is_digit_def) (auto simp: unfold)
qed

text \<open>Names as \<open>pathlib\<close> reads them.\<close>

lemma service_dir_samples:
  "service_dir [''ws''] ''a//b/'' = [''ws'', ''services'', ''a'', ''b'']"
  "service_dir [''ws''] ''./a'' = [''ws'', ''services'', ''a'']"
  "service_dir [''ws''] ''.'' = [''ws'', ''services'']"
  "service_dir [''ws''] ''a/../b'' = [''ws'', ''services'', ''a'', ''..'', ''b'']"
  "service_dir [''ws''] ''/srv'' = [''srv'']"
  by (simp_all add: service_dir_def joinpath_def parts_def)

lemma split_at_single: "sep \<notin> set s \<Longrightarrow> split_at sep s = [s]"
  by (induction s) auto

lemma service_dir_name: "dir_name s \<Longrightarrow> service_dir root s = (root @ [''services'']) @ [s]"
  by (cases s) (auto simp: dir_name_def service_dir_def joinpath_def parts_def split_at_single)

lemma dir_name_order: "dir_name ''order''"
  by (simp add: dir_name_def utf8_length_def)

lemma service_dir_order: "service_dir root ''order'' = (root @ [''services'']) @ [''order'']"
  using dir_name_order by (rule service_dir_name)

lemma service_dir_empty: "service_dir root [] = root @ [''services'']"
  by (simp add: service_dir_def joinpath_def parts_def)

lemma py_str_3003: "py_str 3003 = ''3003''"
  by (simp add: py_str_def digits.simps digit_char_def)

lemma main_three:
  "py_int port_arg = Some port \<Longrightarrow>
     main root [prog, service_name, port_arg] w = create_service root service_name port w"
  by (simp add: main_def main_block_def)

lemma stat_order_dir: "os_stat (files ws_order_dir) [''ws'', ''services'', ''order''] = Inr Dir"
  by (simp add: ws_order_dir_def os_stat_def above_def)

lemma stat_order_file:
  "os_stat (files ws_order_file) [''ws'', ''services'', ''order''] = Inr (File ''notes'')"
  by (simp add: ws_order_file_def os_stat_def above_def)

lemma tree_ws_clean: "tree (files ws_clean)"
  by (auto simp: tree_def ws_clean_def split: if_splits)

lemma tree_ws_bare: "tree (files ws_bare)"
  by (auto simp: tree_def ws_bare_def split: if_splits)

lemma stat_order_link:
  "os_stat (files ws_order_link) [''ws'', ''services'', ''order''] = Inl ENOENT"
  by (simp add: ws_order_link_def os_stat_def above_def)

lemma stat_under_file:
  "os_stat (files ws_services_file) [''ws'', ''services'', ''order''] = Inl ENOTDIR"
  by (simp add: ws_services_file_def os_stat_def above_def)

lemma unblocked_ws_clean: "unblocked (files ws_clean) [''ws'', ''services'']"
  by (simp add: unblocked_def ws_clean_def is_file_def)

lemma unblocked_ws_bare: "unblocked (files ws_bare) [''ws'', ''services'']"
  by (simp add: unblocked_def ws_bare_def is_file_def)

lemma fresh_ws_clean: "files ws_clean (service_dir [''ws''] ''order'') = None"
  by (simp add: ws_clean_def service_dir_order)

lemma fresh_ws_bare: "files ws_bare (service_dir [''ws''] ''order'') = None"
  by (simp add: ws_bare_def service_dir_order)

subsection \<open>Directories\<close>

lemma above_Nil [simp]: "above [] = []"
  by (simp add: above_def)

lemma above_snoc [simp]: "above (p @ [c]) = prefixes p"
  by (simp add: above_def)

lemma check_dirs_all: "list_all (\<lambda>q. f q = Some Dir) qs \<Longrightarrow> check_dirs f qs = None"
  by (induction qs) auto

lemma check_dirs_missing:
  "list_all (\<lambda>q. \<not> is_file (f q) \<and> f q \<noteq> Some Dangling) qs \<Longrightarrow>
   \<exists>q \<in> set qs. f q = None \<Longrightarrow>
     check_dirs f qs = Some ENOENT"
  by (induction qs) (auto simp: is_file_def split: option.splits node.splits)

lemma tree_parent: "tree f \<Longrightarrow> f (p @ [c]) \<noteq> None \<Longrightarrow> f p = Some Dir"
  unfolding tree_def by blast

lemma tree_above: "tree f \<Longrightarrow> f (q @ r) \<noteq> None \<Longrightarrow> r \<noteq> [] \<Longrightarrow> f q = Some Dir"
proof (induction r rule: rev_induct)
  case Nil
  then show ?case by simp
next
  case (snoc c r)
  from snoc.prems(2) have "f ((q @ r) @ [c]) \<noteq> None"
    by simp
  with snoc.prems(1) have up: "f (q @ r) = Some Dir"
    by (rule tree_parent)
  show ?case
  proof (cases "r = []")
    case True
    with up show ?thesis by simp
  next
    case False
    with snoc.IH snoc.prems(1) up show ?thesis by simp
  qed
qed

lemma tree_below: "tree f \<Longrightarrow> f q = None \<Longrightarrow> f (q @ r) = None"
proof (rule ccontr)
  assume t: "tree f" and q: "f q = None" and "f (q @ r) \<noteq> None"
  then show False
    using tree_above [OF t, of q r] by (cases "r = []") auto
qed

lemma not_file_cases: "\<not> is_file n \<Longrightarrow> n \<noteq> Some Dangling \<Longrightarrow> n = None \<or> n = Some Dir"
  by (auto simp: is_file_def split: option.splits node.splits)

lemma unblocked_at: "unblocked f p \<Longrightarrow> prefix q p \<Longrightarrow> f q = None \<or> f q = Some Dir"
  by (simp add: unblocked_def list_all_iff not_file_cases)

lemma tree_dirs_to: "tree f \<Longrightarrow> f p = Some Dir \<Longrightarrow> dirs_to f p"
  unfolding dirs_to_def list_all_iff
proof
  fix q assume t: "tree f" and d: "f p = Some Dir" and "q \<in> set (prefixes p)"
  then obtain r where p: "p = q @ r" by (auto simp: prefix_def)
  show "f q = Some Dir"
  proof (cases "r = []")
    case True with p d show ?thesis by simp
  next
    case False with tree_above [OF t, of q r] p d show ?thesis by simp
  qed
qed

lemma dirs_to_made:
  assumes "unblocked f p"
  shows "dirs_to (made_dirs f p) p"
  unfolding dirs_to_def list_all_iff
proof
  fix q
  assume "q \<in> set (prefixes p)"
  then have pq: "prefix q p"
    by simp
  with unblocked_at [OF assms] have "f q = None \<or> f q = Some Dir"
    by blast
  with pq show "made_dirs f p q = Some Dir"
    by (auto simp: made_dirs_def)
qed

lemma unblocked_snoc:
  "unblocked f (p @ [c]) =
     (unblocked f p \<and> \<not> is_file (f (p @ [c])) \<and> f (p @ [c]) \<noteq> Some Dangling)"
  by (simp add: unblocked_def)

lemma dirs_to_snoc: "dirs_to f (p @ [c]) = (dirs_to f p \<and> f (p @ [c]) = Some Dir)"
  by (simp add: dirs_to_def)

lemma made_dirs_snoc:
  "f (p @ [c]) = None \<Longrightarrow> made_dirs f (p @ [c]) = (made_dirs f p)(p @ [c] \<mapsto> Dir)"
  by (rule ext) (auto simp: made_dirs_def)

lemma made_dirs_id: "dirs_to f p \<Longrightarrow> made_dirs f p = f"
  by (rule ext) (auto simp: made_dirs_def dirs_to_def list_all_iff)

lemma dirs_to_upd_dir: "dirs_to f p \<Longrightarrow> dirs_to (f(k \<mapsto> Dir)) p"
  by (simp add: dirs_to_def list_all_iff)

lemma dirs_to_upd_below: "dirs_to f p \<Longrightarrow> dirs_to (f(p @ c # cs \<mapsto> v)) p"
  by (auto simp: dirs_to_def list_all_iff prefix_def)

lemma dirs_to_is_dir: "dirs_to f p \<Longrightarrow> is_dir f p"
proof -
  assume d: "dirs_to f p"
  then have "list_all (\<lambda>q. f q = Some Dir) (above p)"
    by (auto simp: dirs_to_def above_def list_all_iff dest: in_set_butlastD)
  moreover from d have "f p = Some Dir"
    by (simp add: dirs_to_def list_all_iff)
  ultimately show ?thesis
    by (simp add: is_dir_def os_stat_def check_dirs_all)
qed

lemma is_dir_exists: "is_dir f p \<Longrightarrow> path_exists f p"
  by (simp add: is_dir_def path_exists_def)

lemma not_exists_fresh: "f p = None \<Longrightarrow> \<not> path_exists f p"
  by (simp add: path_exists_def os_stat_def split: option.splits)

text \<open>
  Making a directory whose parent is there, writing a file in a directory that is there,
  and \<open>mkdir(parents=True, exist_ok=True)\<close> on an unblocked path of a well-formed
  file system.
\<close>

lemma mkdir_child:
  "dirs_to f p \<Longrightarrow> f (p @ [c]) = None \<Longrightarrow>
     mkdir_parents f (p @ [c]) = Inr (f(p @ [c] \<mapsto> Dir))"
  by (subst mkdir_parents.simps) (simp add: os_mkdir_def check_dirs_all dirs_to_def)

lemma write_child:
  "dirs_to f p \<Longrightarrow> f (p @ [c]) \<noteq> Some Dir \<Longrightarrow> f (p @ [c]) \<noteq> Some Dangling \<Longrightarrow>
     open_write f (p @ [c]) text = Inr (f(p @ [c] \<mapsto> File text))"
  by (auto simp: open_write_def check_dirs_all dirs_to_def split: option.splits node.splits)

lemma open_write_Inr: "open_write f p t = Inr g \<Longrightarrow> g = f(p \<mapsto> File t)"
  by (auto simp: open_write_def split: option.splits node.splits if_splits)

lemma mkdir_parents_made:
  "tree f \<Longrightarrow> unblocked f p \<Longrightarrow> mkdir_parents f p = Inr (made_dirs f p)"
proof (induction p rule: rev_induct)
  case Nil
  then have root: "f [] = Some Dir" by (simp add: tree_def)
  then have "made_dirs f [] = f"
    by (intro made_dirs_id) (simp add: dirs_to_def)
  with root show ?case
    by (subst mkdir_parents.simps) (simp add: os_mkdir_def is_dir_def os_stat_def)
next
  case (snoc c p)
  from snoc.prems have ub: "unblocked f p" and nf: "\<not> is_file (f (p @ [c]))"
    and nd: "f (p @ [c]) \<noteq> Some Dangling"
    by (simp_all add: unblocked_snoc)
  show ?case
  proof (cases "f p")
    case None
    with snoc.prems(1) have fresh: "f (p @ [c]) = None"
      by (rule tree_below)
    have "\<exists>q \<in> set (prefixes p). f q = None"
      using None by auto
    with ub have miss: "check_dirs f (prefixes p) = Some ENOENT"
      by (intro check_dirs_missing) (simp add: unblocked_def)
    have parent: "mkdir_parents f p = Inr (made_dirs f p)"
      using snoc.IH snoc.prems(1) ub by simp
    have "made_dirs f p (p @ [c]) = None"
      using fresh by (simp add: made_dirs_def)
    with dirs_to_made [OF ub] have "mkdir_exist_ok (made_dirs f p) (p @ [c]) =
        Inr ((made_dirs f p)(p @ [c] \<mapsto> Dir))"
      by (simp add: mkdir_exist_ok_def os_mkdir_def check_dirs_all dirs_to_def)
    with miss parent fresh show ?thesis
      by (subst mkdir_parents.simps) (simp add: os_mkdir_def made_dirs_snoc)
  next
    case (Some n)
    with unblocked_at [OF ub, of p] have dir: "f p = Some Dir"
      by simp
    with snoc.prems(1) have above: "dirs_to f p"
      by (rule tree_dirs_to)
    show ?thesis
    proof (cases "f (p @ [c])")
      case None
      have "made_dirs f (p @ [c]) = f(p @ [c] \<mapsto> Dir)"
        using made_dirs_snoc [of f p c] None made_dirs_id [OF above] by simp
      with mkdir_child [OF above None] show ?thesis
        by (simp only:)
    next
      case (Some m)
      with not_file_cases [OF nf nd] have there: "f (p @ [c]) = Some Dir"
        by simp
      with above have "dirs_to f (p @ [c])"
        by (simp add: dirs_to_snoc)
      then have "made_dirs f (p @ [c]) = f"
        by (rule made_dirs_id)
      with there above show ?thesis
        by (subst mkdir_parents.simps)
          (simp add: os_mkdir_def is_dir_def os_stat_def check_dirs_all dirs_to_def)
    qed
  qed
qed

subsection \<open>Running statements\<close>

lemma run_print: "run (print s # ss) w = run ss (w\<lparr>stdout := stdout w @ [s]\<rparr>)"
  by (simp add: print_def)

lemma run_sys_exit: "run (sys_exit n # ss) w \<noteq> (Returned, w')"
  by (simp add: sys_exit_def)

lemma run_mkdir_made:
  "tree (files w) \<Longrightarrow> unblocked (files w) p \<Longrightarrow>
     run (mkdir p # ss) w = run ss (w\<lparr>files := made_dirs (files w) p\<rparr>)"
  by (simp add: mkdir_def mkdir_parents_made)

lemma run_mkdir_child:
  "dirs_to (files w) p \<Longrightarrow> files w (p @ [c]) = None \<Longrightarrow>
     run (mkdir (p @ [c]) # ss) w = run ss (w\<lparr>files := (files w)(p @ [c] \<mapsto> Dir)\<rparr>)"
  by (simp add: mkdir_def mkdir_child)

lemma run_write_child:
  "dirs_to (files w) p \<Longrightarrow> files w (p @ [c]) \<noteq> Some Dir \<Longrightarrow>
   files w (p @ [c]) \<noteq> Some Dangling \<Longrightarrow>
     run (write_file (p @ [c]) text # ss) w =
       run ss (w\<lparr>files := (files w)(p @ [c] \<mapsto> File text)\<rparr>)"
  by (simp add: write_file_def write_child)

lemma run_write_grandchild:
  "dirs_to (files w) p \<Longrightarrow> files w (p @ [a]) = Some Dir \<Longrightarrow>
   files w (p @ [a, b]) \<noteq> Some Dir \<Longrightarrow> files w (p @ [a, b]) \<noteq> Some Dangling \<Longrightarrow>
     run (write_file (p @ [a, b]) text # ss) w =
       run ss (w\<lparr>files := (files w)(p @ [a, b] \<mapsto> File text)\<rparr>)"
  using run_write_child [of w "p @ [a]" b "text" ss] by (simp add: dirs_to_snoc)

lemma run_write_iff:
  "run (write_file p t # ss) w = (Returned, w') \<longleftrightarrow>
     \<not> isl (open_write (files w) p t)
     \<and> run ss (w\<lparr>files := (files w)(p \<mapsto> File t)\<rparr>) = (Returned, w')"
proof (cases "open_write (files w) p t")
  case (Inl e)
  then show ?thesis by (simp add: write_file_def)
next
  case (Inr g)
  with open_write_Inr [OF Inr] show ?thesis by (simp add: write_file_def)
qed

lemma run_mkdir_iff:
  "run (mkdir p # ss) w = (Returned, w') \<longleftrightarrow>
     (\<exists>f. mkdir_parents (files w) p = Inr f \<and> run ss (w\<lparr>files := f\<rparr>) = (Returned, w'))"
  by (cases "mkdir_parents (files w) p") (simp_all add: mkdir_def)

subsection \<open>How \<open>create_service\<close> ends\<close>

lemma create_service_exists:
  "path_exists (files w) (service_dir root service_name) \<Longrightarrow>
     create_service root service_name port w =
       (SysExit 1, w\<lparr>stdout := stdout w @
          [''Error: Service '' @ [CHR 0x27] @ service_name @ [CHR 0x27] @ '' already exists'']\<rparr>)"
  by (simp add: create_service_def print_def sys_exit_def)

lemma create_service_fresh:
  assumes name: "service_dir root service_name = p @ [c]"
    and t: "tree (files w)"
    and ub: "unblocked (files w) p"
    and fresh: "files w (service_dir root service_name) = None"
  shows "fst (create_service root service_name port w) = Returned"
    and "files (snd (create_service root service_name port w)) =
      scaffolded (files w) root service_name port"
proof -
  define sd where "sd = service_dir root service_name"
  define f1 where "f1 = made_dirs (files w) sd"
  have sd: "sd = p @ [c]"
    by (simp add: sd_def name)
  have ub_sd: "unblocked (files w) sd"
    using ub fresh unfolding sd unblocked_snoc by (simp add: is_file_def name)
  have first: "\<And>ss v. files v = files w \<Longrightarrow>
      run (mkdir sd # ss) v = run ss (v\<lparr>files := f1\<rparr>)"
    using t ub_sd by (simp add: f1_def run_mkdir_made del: run.simps(2))
  have above: "dirs_to f1 sd"
    unfolding f1_def using ub_sd by (rule dirs_to_made)
  have below: "\<And>c cs. f1 (sd @ c # cs) = None"
    using tree_below [OF t, of sd] fresh by (simp add: f1_def made_dirs_def sd_def)
  have f1: "f1 = (made_dirs (files w) (butlast sd))(sd \<mapsto> Dir)"
    unfolding f1_def sd using fresh made_dirs_snoc [of "files w" p c] by (simp add: name)
  have goal: "scaffolded (files w) root service_name port =
      f1(sd @ [''src''] \<mapsto> Dir, sd @ [''config''] \<mapsto> Dir, sd @ [''models''] \<mapsto> Dir,
         sd @ [''scripts''] \<mapsto> Dir,
         sd @ [''package.json''] \<mapsto> File (json_dumps 2 0 (package_json service_name)),
         sd @ [''.env''] \<mapsto> File (env_content service_name port),
         sd @ [''index.js''] \<mapsto> File (index_js port),
         sd @ [''config'', ''express.config.js''] \<mapsto> File express_config,
         sd @ [''index.route.js''] \<mapsto> File index_route,
         sd @ [''README.md''] \<mapsto> File (readme service_name port))"
    by (simp add: scaffolded_def f1 sd_def)
  have "\<not> path_exists (files w) sd"
    using fresh by (simp add: not_exists_fresh sd_def)
  then show "fst (create_service root service_name port w) = Returned"
    and "files (snd (create_service root service_name port w)) =
      scaffolded (files w) root service_name port"
    unfolding create_service_def dirs_def goal sd_def [symmetric]
    by (simp_all add: run_print first run_mkdir_child run_write_child run_write_grandchild
        dirs_to_upd_dir dirs_to_upd_below above below del: run.simps(2))
qed

lemma create_service_Returned:
  assumes "create_service root service_name port w = (Returned, w')"
  shows "\<exists>f. files w' =
      f(service_dir root service_name @ [''package.json'']
          \<mapsto> File (json_dumps 2 0 (package_json service_name)),
        service_dir root service_name @ [''.env''] \<mapsto> File (env_content service_name port),
        service_dir root service_name @ [''index.js''] \<mapsto> File (index_js port),
        service_dir root service_name @ [''config'', ''express.config.js'']
          \<mapsto> File express_config,
        service_dir root service_name @ [''index.route.js''] \<mapsto> File index_route,
        service_dir root service_name @ [''README.md'']
          \<mapsto> File (readme service_name port))"
proof -
  define sd where "sd = service_dir root service_name"
  have absent: "\<not> path_exists (files w) sd"
  proof
    assume "path_exists (files w) sd"
    with assms show False
      by (simp add: create_service_def sd_def run_print run_sys_exit del: run.simps(2))
  qed
  from assms absent show ?thesis
    unfolding create_service_def dirs_def sd_def [symmetric]
    by (clarsimp simp add: run_print run_mkdir_iff run_write_iff simp del: run.simps(2))
      (rule exI, rule refl)
qed

lemma returned_ws_clean:
  "create_service [''ws''] ''order'' 3003 ws_clean =
     (Returned, snd (create_service [''ws''] ''order'' 3003 ws_clean))"
proof -
  have ub: "unblocked (files ws_clean) ([''ws''] @ [''services''])"
    using unblocked_ws_clean by simp
  from create_service_fresh(1) [OF service_dir_order tree_ws_clean ub fresh_ws_clean, of 3003]
  show ?thesis
    by (simp add: prod_eq_iff)
qed

text \<open>
  Runs that fail: over a dangling link at the destination, under a services root that is
  a regular file, with the empty name, and with a port of 4301 digits.
\<close>

lemma run_mkdir_raises:
  "mkdir_parents (files w) p = Inl e \<Longrightarrow> run (mkdir p # ss) w = (Raised e, w)"
  by (simp add: mkdir_def)

lemma mkdir_order_link:
  "mkdir_parents (files ws_order_link) [''ws'', ''services'', ''order''] = Inl EEXIST"
  by (subst mkdir_parents.simps)
    (simp add: os_mkdir_def above_def is_dir_def stat_order_link, simp add: ws_order_link_def)

lemma mkdir_under_file:
  "mkdir_parents (files ws_services_file) [''ws'', ''services'', ''order''] = Inl ENOTDIR"
  by (subst mkdir_parents.simps)
    (simp add: os_mkdir_def above_def is_dir_def stat_under_file, simp add: ws_services_file_def)

lemma create_service_order_link:
  "create_service [''ws''] ''order'' 3003 ws_order_link =
     (Raised EEXIST, ws_order_link\<lparr>stdout := [''Creating service: order on port 3003'']\<rparr>)"
proof -
  have "\<not> path_exists (files ws_order_link) (service_dir [''ws''] ''order'')"
    by (simp add: path_exists_def service_dir_order stat_order_link)
  then show ?thesis
    unfolding create_service_def dirs_def
    by (simp add: service_dir_order run_print run_mkdir_raises mkdir_order_link py_str_3003
        del: run.simps(2))
      (simp add: ws_order_link_def)
qed

lemma create_service_services_file:
  "create_service [''ws''] ''order'' 3003 ws_services_file =
     (Raised ENOTDIR, ws_services_file\<lparr>stdout := [''Creating service: order on port 3003'']\<rparr>)"
proof -
  have "\<not> path_exists (files ws_services_file) (service_dir [''ws''] ''order'')"
    by (simp add: path_exists_def service_dir_order stat_under_file)
  then show ?thesis
    unfolding create_service_def dirs_def
    by (simp add: service_dir_order run_print run_mkdir_raises mkdir_under_file py_str_3003
        del: run.simps(2))
      (simp add: ws_services_file_def)
qed

lemma create_service_empty_name:
  "create_service [''ws''] [] 3003 ws_clean =
     (SysExit 1, ws_clean\<lparr>stdout := [''Error: Service '' @ [CHR 0x27, CHR 0x27]
        @ '' already exists'']\<rparr>)"
proof -
  have "os_stat (files ws_clean) [''ws'', ''services''] = Inr Dir"
    by (simp add: ws_clean_def os_stat_def above_def)
  then have "path_exists (files ws_clean) (service_dir [''ws''] [])"
    by (simp add: path_exists_def service_dir_empty)
  then show ?thesis
    by (simp add: create_service_exists) (simp add: ws_clean_def)
qed

lemma main_long_port:
  "main root [prog, service_name, long_port] w =
     (SysExit 1, w\<lparr>stdout := stdout w @ [''Error: Port must be a number'']\<rparr>)"
  by (simp add: main_def main_block_def py_int_long_port print_def sys_exit_def)

subsection \<open>What a fresh run leaves\<close>


lemma dirs_to_scaffolded:
  assumes name: "service_dir root service_name = p @ [c]"
    and ub: "unblocked f p"
  shows "dirs_to (scaffolded f root service_name port) (service_dir root service_name)"
proof -
  define sd where "sd = service_dir root service_name"
  define g where "g = (made_dirs f (butlast sd))(sd \<mapsto> Dir)"
  have sd: "sd = p @ [c]"
    by (simp add: sd_def name)
  have "dirs_to ((made_dirs f p)(sd \<mapsto> Dir)) p"
    using ub by (intro dirs_to_upd_dir dirs_to_made)
  then have "dirs_to g p"
    by (simp add: g_def sd)
  then have "dirs_to g sd"
    unfolding sd dirs_to_snoc by (simp add: g_def sd)
  then show ?thesis
    unfolding scaffolded_def sd_def [symmetric] g_def [symmetric]
    by (intro dirs_to_upd_dir dirs_to_upd_below)
qed

lemma regular_files_upd:
  "regular_files (g(k \<mapsto> File t)) = insert k (regular_files g)"
  "regular_files (g(k \<mapsto> Dir)) = regular_files g - {k}"
  by (auto simp: regular_files_def is_file_def)

lemma directories_upd:
  "directories (g(k \<mapsto> Dir)) = insert k (directories g)"
  "directories (g(k \<mapsto> File t)) = directories g - {k}"
  by (auto simp: directories_def)

lemma regular_files_made: "regular_files (made_dirs f p) = regular_files f"
  by (auto simp: regular_files_def made_dirs_def is_file_def split: option.splits)

lemma directories_made:
  "directories (made_dirs f p) = directories f \<union> {q. prefix q p \<and> f q = None}"
  by (auto simp: directories_def made_dirs_def)

lemma scaffolded_sets:
  assumes name: "service_dir root service_name = p @ [c]"
    and t: "tree f" and fresh: "f (service_dir root service_name) = None"
  shows "regular_files (scaffolded f root service_name port) =
      regular_files f \<union>
      {service_dir root service_name @ [''package.json''],
       service_dir root service_name @ [''.env''],
       service_dir root service_name @ [''index.js''],
       service_dir root service_name @ [''config'', ''express.config.js''],
       service_dir root service_name @ [''index.route.js''],
       service_dir root service_name @ [''README.md'']}"
    and "directories (scaffolded f root service_name port) =
      directories f \<union> {q. prefix q p \<and> f q = None} \<union>
      {service_dir root service_name,
       service_dir root service_name @ [''src''],
       service_dir root service_name @ [''config''],
       service_dir root service_name @ [''models''],
       service_dir root service_name @ [''scripts'']}"
    and "regular_files f \<inter>
      {service_dir root service_name @ [''package.json''],
       service_dir root service_name @ [''.env''],
       service_dir root service_name @ [''index.js''],
       service_dir root service_name @ [''config'', ''express.config.js''],
       service_dir root service_name @ [''index.route.js''],
       service_dir root service_name @ [''README.md'']} = {}"
proof -
  define sd where "sd = service_dir root service_name"
  define g0 where "g0 = made_dirs f (butlast sd)"
  have up: "butlast sd = p"
    by (simp add: sd_def name)
  have below: "\<And>cs. f (sd @ cs) = None"
    using tree_below [OF t fresh] by (simp add: sd_def)
  then have no_file: "\<And>cs. sd @ cs \<notin> regular_files g0"
    by (simp add: g0_def regular_files_made) (simp add: regular_files_def is_file_def)
  from no_file [of "[]"] have no_file_sd: "sd \<notin> regular_files g0"
    by simp
  have "\<And>cs. g0 (sd @ cs) = None"
    using below by (simp add: g0_def made_dirs_def up) (simp add: sd_def name)
  then have no_dir: "\<And>cs. sd @ cs \<notin> directories g0"
    by (simp add: directories_def)
  from no_dir [of "[]"] have no_dir_sd: "sd \<notin> directories g0"
    by simp
  show "regular_files (scaffolded f root service_name port) =
      regular_files f \<union>
      {service_dir root service_name @ [''package.json''],
       service_dir root service_name @ [''.env''],
       service_dir root service_name @ [''index.js''],
       service_dir root service_name @ [''config'', ''express.config.js''],
       service_dir root service_name @ [''index.route.js''],
       service_dir root service_name @ [''README.md'']}"
    unfolding scaffolded_def sd_def [symmetric] g0_def [symmetric]
    by (simp add: regular_files_upd no_file no_file_sd)
      (auto simp: g0_def regular_files_made)
  show "directories (scaffolded f root service_name port) =
      directories f \<union> {q. prefix q p \<and> f q = None} \<union>
      {service_dir root service_name,
       service_dir root service_name @ [''src''],
       service_dir root service_name @ [''config''],
       service_dir root service_name @ [''models''],
       service_dir root service_name @ [''scripts'']}"
    unfolding scaffolded_def sd_def [symmetric] g0_def [symmetric]
    by (simp add: directories_upd no_dir no_dir_sd)
      (auto simp: g0_def directories_made up)
  show "regular_files f \<inter>
      {service_dir root service_name @ [''package.json''],
       service_dir root service_name @ [''.env''],
       service_dir root service_name @ [''index.js''],
       service_dir root service_name @ [''config'', ''express.config.js''],
       service_dir root service_name @ [''index.route.js''],
       service_dir root service_name @ [''README.md'']} = {}"
    unfolding sd_def [symmetric] using below
    by (simp add: regular_files_def is_file_def)
qed

text \<open>A name that is an absolute path: the skeleton is made there.\<close>

lemma create_service_absolute:
  "fst (create_service [''ws''] ''/srv'' 3003 ws_clean) = Returned"
  "regular_files (files (snd (create_service [''ws''] ''/srv'' 3003 ws_clean))) =
     {[''srv'', ''package.json''], [''srv'', ''.env''], [''srv'', ''index.js''],
      [''srv'', ''config'', ''express.config.js''], [''srv'', ''index.route.js''],
      [''srv'', ''README.md'']}"
proof -
  have name: "service_dir [''ws''] ''/srv'' = [] @ [''srv'']"
    by (simp add: service_dir_samples)
  have ub: "unblocked (files ws_clean) []"
    by (simp add: unblocked_def ws_clean_def is_file_def)
  have fresh: "files ws_clean (service_dir [''ws''] ''/srv'') = None"
    by (simp add: service_dir_samples ws_clean_def)
  have none: "regular_files (files ws_clean) = {}"
    by (auto simp: regular_files_def ws_clean_def is_file_def split: if_splits)
  note made = create_service_fresh [OF name tree_ws_clean ub fresh, of 3003]
  from made(1) show "fst (create_service [''ws''] ''/srv'' 3003 ws_clean) = Returned" .
  show "regular_files (files (snd (create_service [''ws''] ''/srv'' 3003 ws_clean))) =
     {[''srv'', ''package.json''], [''srv'', ''.env''], [''srv'', ''index.js''],
      [''srv'', ''config'', ''express.config.js''], [''srv'', ''index.route.js''],
      [''srv'', ''README.md'']}"
    unfolding made(2) scaffolded_sets(1) [OF name tree_ws_clean fresh] none
    by (simp add: service_dir_samples)
qed

subsection \<open>The port line and the README\<close>

lemma text_lines_not_Nil: "text_lines s \<noteq> []"
  by (induction s) (auto split: list.splits)

lemma text_lines_append_nl: "text_lines (a @ nl # b) = text_lines a @ text_lines b"
proof (induction a)
  case Nil
  show ?case by simp
next
  case (Cons c a)
  obtain l ls where "text_lines a = l # ls"
    using text_lines_not_Nil [of a] by (cases "text_lines a") auto
  with Cons show ?case by simp
qed

lemma text_lines_single: "nl \<notin> set l \<Longrightarrow> text_lines l = [l]"
  by (induction l) auto

lemma text_lines_unlines: "l \<in> set (text_lines z) \<Longrightarrow> l \<in> set (text_lines (unlines ls @ z))"
  by (induction ls) (simp_all add: unlines_def text_lines_append_nl)

lemma last_line: "nl \<notin> set l \<Longrightarrow> l \<in> set (text_lines (unlines (ls @ [l])))"
proof -
  assume "nl \<notin> set l"
  then have "l \<in> set (text_lines (l @ nl # []))"
    unfolding text_lines_append_nl by (simp add: text_lines_single)
  then have "l \<in> set (text_lines (unlines ls @ l @ [nl]))"
    by (intro text_lines_unlines) simp
  then show ?thesis by (simp add: unlines_def)
qed

lemma digit_char_not_nl: "digit_char d \<noteq> nl" "nl \<noteq> digit_char d"
  by (simp_all add: digit_char_def nl_def)

lemma digits_no_nl: "nl \<notin> set (digits n)"
proof (induction n rule: digits.induct)
  case (1 n)
  then show ?case
    by (subst digits.simps) (simp add: digit_char_not_nl)
qed

lemma py_str_no_nl: "nl \<notin> set (py_str i)"
  by (simp add: py_str_def digits_no_nl) (simp add: nl_def)

lemma env_port_line: "''PORT='' @ py_str port \<in> set (text_lines (env_content service_name port))"
proof -
  have "nl \<notin> set (''PORT='' @ py_str port)"
    using py_str_no_nl [of port] by (simp add: nl_def)
  then have "''PORT='' @ py_str port \<in> set (text_lines (unlines
      ([''# '',
        ''# '' @ py_upper service_name @ '' SERVICE - Specific Configuration'',
        ''# Loaded after root .env (can override common variables if needed)'',
        ''# '',
        [],
        ''# Server Port ('' @ py_title service_name @ '' Service)'']
       @ [''PORT='' @ py_str port])))"
    by (rule last_line)
  then show ?thesis by (simp add: env_content_def)
qed


subsection \<open>Reading back the port\<close>

text \<open>
  \<open>py_str\<close> writes the numeral of the integer: \<open>read_decimal\<close> reads it back, and it
  reads nothing else as that integer.
\<close>

lemma below_ten:
  "d < 10 \<Longrightarrow> d = 0 \<or> d = 1 \<or> d = 2 \<or> d = 3 \<or> d = 4 \<or> d = 5 \<or> d = 6 \<or> d = 7 \<or> d = 8
     \<or> d = (9::nat)"
  by arith

lemma digit_value_digit_char: "d < 10 \<Longrightarrow> digit_value (digit_char d) = d"
  by (drule below_ten, elim disjE) (simp_all add: digit_value_def digit_char_def)

lemma digit_char_digit: "digit_char d \<in> set ''0123456789''"
  by (simp add: digit_char_def)

lemma digit_char_zero: "d < 10 \<Longrightarrow> (digit_char d = CHR ''0'') = (d = 0)"
  by (drule below_ten, elim disjE) (simp_all add: digit_char_def)

lemma digit_char_digit_value: "c \<in> set ''0123456789'' \<Longrightarrow> digit_char (digit_value c) = c"
  by (auto simp: digit_value_def digit_char_def)

lemma digit_value_less: "c \<in> set ''0123456789'' \<Longrightarrow> digit_value c < 10"
  by (auto simp: digit_value_def)

lemma digit_value_zero: "c \<in> set ''0123456789'' \<Longrightarrow> (digit_value c = 0) = (c = CHR ''0'')"
  by (auto simp: digit_value_def)

lemma numeral_value_snoc: "numeral_value (s @ [c]) = 10 * numeral_value s + digit_value c"
  by (simp add: numeral_value_def)

lemma digits_not_Nil: "digits n \<noteq> []"
  by (subst digits.simps) simp

lemma digits_set: "set (digits n) \<subseteq> set ''0123456789''"
proof (induction n rule: digits.induct)
  case (1 n)
  show ?case
  proof (cases "n < 10")
    case True
    then show ?thesis
      using digit_char_digit [of n] by (subst digits.simps) simp
  next
    case False
    with 1 digit_char_digit [of "n mod 10"] show ?thesis
      by (subst digits.simps) simp
  qed
qed

lemma digits_value: "numeral_value (digits n) = n"
proof (induction n rule: digits.induct)
  case (1 n)
  show ?case
  proof (cases "n < 10")
    case True
    then show ?thesis
      by (subst digits.simps) (simp add: numeral_value_def digit_value_digit_char)
  next
    case False
    with 1 show ?thesis
      by (subst digits.simps) (simp add: numeral_value_snoc digit_value_digit_char)
  qed
qed

lemma digits_hd: "0 < n \<Longrightarrow> hd (digits n) \<noteq> CHR ''0''"
proof (induction n rule: digits.induct)
  case (1 n)
  show ?case
  proof (cases "n < 10")
    case True
    with 1(2) show ?thesis
      by (subst digits.simps) (simp add: digit_char_zero)
  next
    case False
    then have "0 < n div 10" by simp
    with 1(1) False have "hd (digits (n div 10)) \<noteq> CHR ''0''"
      by simp
    with False show ?thesis
      by (subst digits.simps) (simp add: digits_not_Nil)
  qed
qed

lemma digits_zero: "digits 0 = ''0''"
  by (subst digits.simps) (simp add: digit_char_def)

lemma digits_natural: "natural_numeral (digits n)"
proof (cases "n = 0")
  case True
  then show ?thesis
    by (simp add: digits_zero natural_numeral_def)
next
  case False
  then show ?thesis
    using digits_hd [of n] digits_set [of n] by (simp add: natural_numeral_def digits_not_Nil)
qed

lemma digits_hd_not_minus: "hd (digits n) \<noteq> CHR ''-''"
  using digits_set [of n] digits_not_Nil [of n] by (cases "digits n") auto

lemma digits_pos_not_zero: "0 < n \<Longrightarrow> digits n \<noteq> ''0''"
  using digits_hd [of n] by auto

lemma read_decimal_py_str: "read_decimal (py_str i) = Some i"
proof (cases "i < 0")
  case True
  then have "0 < nat (- i)" by simp
  then have "digits (nat (- i)) \<noteq> ''0''"
    by (rule digits_pos_not_zero)
  with True show ?thesis
    by (simp add: read_decimal_def py_str_def digits_natural digits_value)
next
  case False
  then show ?thesis
    using digits_hd_not_minus [of "nat i"]
    by (simp add: read_decimal_def py_str_def digits_natural digits_value digits_not_Nil)
qed

lemma natural_positive:
  "s \<noteq> [] \<Longrightarrow> set s \<subseteq> set ''0123456789'' \<Longrightarrow> hd s \<noteq> CHR ''0'' \<Longrightarrow> 0 < numeral_value s"
proof (induction s rule: rev_induct)
  case Nil
  then show ?case by simp
next
  case (snoc c s)
  show ?case
  proof (cases "s = []")
    case True
    with snoc.prems have "c \<in> set ''0123456789''" and "c \<noteq> CHR ''0''"
      by simp_all
    then have "digit_value c \<noteq> 0"
      by (simp only: digit_value_zero) simp
    with True show ?thesis
      by (simp add: numeral_value_def)
  next
    case False
    with snoc have "0 < numeral_value s"
      by simp
    then show ?thesis
      by (simp add: numeral_value_snoc)
  qed
qed

lemma natural_is_digits:
  "natural_numeral s \<Longrightarrow> s = digits (numeral_value s)"
proof (induction s rule: rev_induct)
  case Nil
  then show ?case by (simp add: natural_numeral_def)
next
  case (snoc c s)
  from snoc.prems have c: "c \<in> set ''0123456789''"
    and all: "set s \<subseteq> set ''0123456789''"
    by (simp_all add: natural_numeral_def)
  note less = digit_value_less [OF c]
  show ?case
  proof (cases "s = []")
    case True
    with less c show ?thesis
      by (subst digits.simps) (simp add: numeral_value_def digit_char_digit_value)
  next
    case False
    with snoc.prems have hd: "hd s \<noteq> CHR ''0''"
      by (auto simp: natural_numeral_def)
    with False all have nat: "natural_numeral s"
      by (simp add: natural_numeral_def)
    from natural_positive [OF False all hd] have pos: "0 < numeral_value s" .
    from snoc.IH [OF nat] have s: "s = digits (numeral_value s)" .
    have "digits (numeral_value (s @ [c])) =
        digits (numeral_value s) @ [digit_char (digit_value c)]"
      using pos less by (subst digits.simps) (simp add: numeral_value_snoc)
    with s c show ?thesis
      by (simp add: digit_char_digit_value)
  qed
qed

lemma read_decimal_is_py_str: "read_decimal s = Some i \<Longrightarrow> s = py_str i"
proof (cases "s \<noteq> [] \<and> hd s = CHR ''-''")
  case True
  assume r: "read_decimal s = Some i"
  from True obtain t where s: "s = CHR ''-'' # t"
    by (cases s) auto
  from r s have nat: "natural_numeral t" and z: "t \<noteq> ''0''"
    and i: "i = - int (numeral_value t)"
    by (auto simp: read_decimal_def split: if_splits)
  from nat z have "hd t \<noteq> CHR ''0''" and "t \<noteq> []" and "set t \<subseteq> set ''0123456789''"
    by (auto simp: natural_numeral_def)
  then have "0 < numeral_value t"
    by (intro natural_positive)
  with i natural_is_digits [OF nat] s show ?thesis
    by (simp add: py_str_def)
next
  case False
  assume r: "read_decimal s = Some i"
  with False have nat: "natural_numeral s" and i: "i = int (numeral_value s)"
    by (auto simp: read_decimal_def split: if_splits)
  with natural_is_digits [OF nat] show ?thesis
    by (simp add: py_str_def)
qed

lemma read_decimal_unique:
  "read_decimal s = Some i \<Longrightarrow> read_decimal t = Some i \<Longrightarrow> s = t"
  using read_decimal_is_py_str [of s i] read_decimal_is_py_str [of t i] by simp

lemma read_decimal_3003: "read_decimal ''3003'' = Some 3003"
  by (simp add: read_decimal_def natural_numeral_def numeral_value_def digit_value_def)

lemma read_decimal_samples:
  "read_decimal ''-7'' = Some (- 7)" "read_decimal ''0'' = Some 0"
  "read_decimal ''007'' = None" "read_decimal ''-0'' = None" "read_decimal ''+7'' = None"
  "read_decimal [] = None" "read_decimal ''-'' = None" "read_decimal '' 7'' = None"
  "read_decimal ''1_0'' = None" "read_decimal ''7a'' = None"
  by (simp_all add: read_decimal_def natural_numeral_def numeral_value_def digit_value_def)

subsection \<open>Reading back the manifest\<close>

text \<open>The reader on small texts: one it accepts, and some it refuses.\<close>

lemma json_parse_accepts:
  \<open>json_parse ''{"a": [10, -2.5e3, true, null, "xA"], "b": {}} '' =
     Some (JObject [(codes ''a'', JArray [JNumber ''10'', JNumber ''-2.5e3'', JBool True, JNull,
                      JString (codes ''xA'')]),
                    (codes ''b'', JObject [])])\<close>
  by (simp add: json_parse_def json_ws_def start_value_def is_digit_def num_final_def
      hex_val_def unescape_def codes_def)

lemma json_parse_rejects:
  \<open>json_parse ''{"a": 1,}'' = None\<close>
  \<open>json_parse ''{"a" 1}'' = None\<close>
  \<open>json_parse ''{a: 1}'' = None\<close>
  \<open>json_parse ''[1 2]'' = None\<close>
  \<open>json_parse ''[01]'' = None\<close>
  \<open>json_parse ''"abc'' = None\<close>
  \<open>json_parse ''{"a": 1}}'' = None\<close>
  \<open>json_parse [] = None\<close>
  by (simp_all add: json_parse_def json_ws_def start_value_def is_digit_def num_final_def
      hex_val_def unescape_def)

text \<open>
  What \<open>encode_str\<close> writes for a string is read back as that string, whatever
  characters it has; with that, the manifest is read back as the value it was written
  from.
\<close>

lemma steps_append:
  "steps s (a @ b) = (case steps s a of None \<Rightarrow> None | Some s' \<Rightarrow> steps s' b)"
  by (induction a arbitrary: s) (auto split: option.splits)

lemma of_char_less_256: "(of_char c :: nat) < 256"
  by (cases c) simp

lemma hex_val_hex_char: "d < 16 \<Longrightarrow> hex_val (hex_char d) = Some d"
proof -
  assume "d < 16"
  then have "d = 0 \<or> d = 1 \<or> d = 2 \<or> d = 3 \<or> d = 4 \<or> d = 5 \<or> d = 6 \<or> d = 7 \<or> d = 8
      \<or> d = 9 \<or> d = 10 \<or> d = 11 \<or> d = 12 \<or> d = 13 \<or> d = 14 \<or> d = 15"
    by arith
  then show ?thesis
    by (elim disjE) (simp_all add: hex_val_def hex_char_def digit_char_def)
qed

lemma hex_val_zero: "hex_val CHR ''0'' = Some 0"
  by (simp add: hex_val_def)

lemma steps_escape_char:
  "steps (Str k acc, st) (escape_char c) = Some (Str k (acc @ [of_char c]), st)"
proof -
  have lo: "(of_char c :: nat) div 16 < 16"
    using of_char_less_256 [of c] by arith
  have hi: "(of_char c :: nat) mod 16 < 16"
    by simp
  have val: "16 * ((of_char c :: nat) div 16) + of_char c mod 16 = of_char c"
    by simp
  have ctl: "\<not> 32 \<le> (of_char c :: nat) \<Longrightarrow> c \<noteq> CHR 0x22 \<and> c \<noteq> CHR 0x5C"
    by auto
  show ?thesis
    using ctl
    by (auto simp: escape_char_def unescape_def hex_val_hex_char [OF lo]
        hex_val_hex_char [OF hi] hex_val_zero val)
qed

lemma steps_escaped:
  "steps (Str k acc, st) (concat (map escape_char s)) = Some (Str k (acc @ codes s), st)"
  by (induction s arbitrary: acc) (simp_all add: steps_append steps_escape_char codes_def)

lemma steps_encode_key:
  "steps (FirstKey, InObject kvs # st) (encode_str k) = Some (Colon, AtKey kvs (codes k) # st)"
  "steps (NextKey, InObject kvs # st) (encode_str k) = Some (Colon, AtKey kvs (codes k) # st)"
  by (simp_all add: encode_str_def steps_append steps_escaped json_ws_def)

lemma steps_encode_value:
  "steps (Value, st) (encode_str s) = deliver (JString (codes s)) st"
  by (simp add: encode_str_def steps_append steps_escaped start_value_def json_ws_def
      split: option.splits)

lemma newline_indent_2:
  "newline_indent 2 0 = [nl]"
  "newline_indent 2 (Suc 0) = nl # ''  ''"
  "newline_indent 2 (Suc (Suc 0)) = nl # ''    ''"
  by (simp_all add: newline_indent_def eval_nat_numeral)

lemma package_json_parses:
  "json_parse (json_dumps 2 0 (package_json service_name)) =
     Some (to_json (package_json service_name))"
  by (simp add: json_parse_def package_json_def newline_indent_2 nl_def steps_append
      steps_encode_key steps_encode_value json_ws_def start_value_def)

lemma package_json_name:
  "json_field ''name'' (to_json (package_json service_name)) =
     Some (JString (codes (service_name @ ''-service'')))"
  by (simp add: json_field_def package_json_def codes_def)

section \<open>Properties\<close>

text \<open>
  C1, amended. Take a service name that is a directory name (one path component of at
  most 255 bytes), a port argument that \<open>int\<close> accepts, and a well-formed file system in
  which nothing at all is at \<open>services/<name>\<close>, neither a directory nor a regular file
  nor a link, and nothing but directories stands at the services root or above it. Then
  the run ends normally, so the process exits with status 0, and the file system it
  leaves is the one it found with the services root and its ancestors made where they
  were missing, the five directories of the skeleton, and six regular files under
  \<open>services/<name>\<close>: \<open>package.json\<close>, \<open>.env\<close>, \<open>index.js\<close>,
  \<open>config/express.config.js\<close>, \<open>index.route.js\<close> and \<open>README.md\<close>. Four of them hold
  the text of their template, and so do \<open>.env\<close> and \<open>README.md\<close> when the name is in
  ASCII (for other names their text goes through Python's case mapping, which the model
  has for ASCII only). The regular files afterwards are those from before and these six,
  none of which was there before; the directories afterwards are those from before, the
  missing ones down to the services root and the five of the skeleton.

  As first stated, the property counts seven files, asks only that no directory be at
  the destination, and holds for every pair of a name and a port. The script writes six
  files (the health-check route is part of \<open>index.route.js\<close>); it refuses a destination
  taken by a regular file and fails at one taken by a dangling link; it fails when the
  services root is a regular file; it takes the empty name for the services root itself
  and a name that starts with a slash for a place outside the services root; and it
  rejects a port of more than 4300 digits.
\<close>

theorem scaffold_fresh:
  assumes "dir_name service_name" and "py_int port_arg = Some port"
    and "tree (files w)" and "unblocked (files w) (root @ [''services''])"
    and "files w (root @ [''services'', service_name]) = None"
    and "w' = snd (main root [prog, service_name, port_arg] w)"
  shows "exit_code (fst (main root [prog, service_name, port_arg] w)) = 0
    \<and> (\<exists>env doc.
         files w' =
           (made_dirs (files w) (root @ [''services'']))
             (root @ [''services'', service_name] \<mapsto> Dir,
              root @ [''services'', service_name, ''src''] \<mapsto> Dir,
              root @ [''services'', service_name, ''config''] \<mapsto> Dir,
              root @ [''services'', service_name, ''models''] \<mapsto> Dir,
              root @ [''services'', service_name, ''scripts''] \<mapsto> Dir,
              root @ [''services'', service_name, ''package.json'']
                \<mapsto> File (json_dumps 2 0 (package_json service_name)),
              root @ [''services'', service_name, ''.env''] \<mapsto> File env,
              root @ [''services'', service_name, ''index.js''] \<mapsto> File (index_js port),
              root @ [''services'', service_name, ''config'', ''express.config.js'']
                \<mapsto> File express_config,
              root @ [''services'', service_name, ''index.route.js''] \<mapsto> File index_route,
              root @ [''services'', service_name, ''README.md''] \<mapsto> File doc)
         \<and> (ascii_name service_name \<longrightarrow>
                env = env_content service_name port \<and> doc = readme service_name port))
    \<and> regular_files (files w') =
        regular_files (files w) \<union>
        {root @ [''services'', service_name, ''package.json''],
         root @ [''services'', service_name, ''.env''],
         root @ [''services'', service_name, ''index.js''],
         root @ [''services'', service_name, ''config'', ''express.config.js''],
         root @ [''services'', service_name, ''index.route.js''],
         root @ [''services'', service_name, ''README.md'']}
    \<and> regular_files (files w) \<inter>
        {root @ [''services'', service_name, ''package.json''],
         root @ [''services'', service_name, ''.env''],
         root @ [''services'', service_name, ''index.js''],
         root @ [''services'', service_name, ''config'', ''express.config.js''],
         root @ [''services'', service_name, ''index.route.js''],
         root @ [''services'', service_name, ''README.md'']} = {}
    \<and> directories (files w') =
        directories (files w)
        \<union> {q. prefix q (root @ [''services'']) \<and> files w q = None}
        \<union> {root @ [''services'', service_name],
           root @ [''services'', service_name, ''src''],
           root @ [''services'', service_name, ''config''],
           root @ [''services'', service_name, ''models''],
           root @ [''services'', service_name, ''scripts'']}"
proof -
  note name = service_dir_name [OF assms(1), of root]
  have fresh: "files w (service_dir root service_name) = None"
    using assms(5) by (simp add: name)
  have run: "main root [prog, service_name, port_arg] w =
      create_service root service_name port w"
    using assms(2) by (rule main_three)
  from create_service_fresh [OF name assms(3) assms(4) fresh, of port]
  have ok: "fst (create_service root service_name port w) = Returned"
    and after: "files w' = scaffolded (files w) root service_name port"
    by (simp_all add: assms(6) run)
  have "scaffolded (files w) root service_name port =
        (made_dirs (files w) (root @ [''services'']))
          (root @ [''services'', service_name] \<mapsto> Dir,
           root @ [''services'', service_name, ''src''] \<mapsto> Dir,
           root @ [''services'', service_name, ''config''] \<mapsto> Dir,
           root @ [''services'', service_name, ''models''] \<mapsto> Dir,
           root @ [''services'', service_name, ''scripts''] \<mapsto> Dir,
           root @ [''services'', service_name, ''package.json'']
             \<mapsto> File (json_dumps 2 0 (package_json service_name)),
           root @ [''services'', service_name, ''.env'']
             \<mapsto> File (env_content service_name port),
           root @ [''services'', service_name, ''index.js''] \<mapsto> File (index_js port),
           root @ [''services'', service_name, ''config'', ''express.config.js'']
             \<mapsto> File express_config,
           root @ [''services'', service_name, ''index.route.js''] \<mapsto> File index_route,
           root @ [''services'', service_name, ''README.md'']
             \<mapsto> File (readme service_name port))"
    unfolding scaffolded_def name by (simp add: butlast_append del: fun_upd_apply)
  then have shape: "\<exists>env doc.
      scaffolded (files w) root service_name port =
        (made_dirs (files w) (root @ [''services'']))
          (root @ [''services'', service_name] \<mapsto> Dir,
           root @ [''services'', service_name, ''src''] \<mapsto> Dir,
           root @ [''services'', service_name, ''config''] \<mapsto> Dir,
           root @ [''services'', service_name, ''models''] \<mapsto> Dir,
           root @ [''services'', service_name, ''scripts''] \<mapsto> Dir,
           root @ [''services'', service_name, ''package.json'']
             \<mapsto> File (json_dumps 2 0 (package_json service_name)),
           root @ [''services'', service_name, ''.env''] \<mapsto> File env,
           root @ [''services'', service_name, ''index.js''] \<mapsto> File (index_js port),
           root @ [''services'', service_name, ''config'', ''express.config.js'']
             \<mapsto> File express_config,
           root @ [''services'', service_name, ''index.route.js''] \<mapsto> File index_route,
           root @ [''services'', service_name, ''README.md''] \<mapsto> File doc)
      \<and> (ascii_name service_name \<longrightarrow>
             env = env_content service_name port \<and> doc = readme service_name port)"
    by (intro exI [of _ "env_content service_name port"]
        exI [of _ "readme service_name port"] conjI impI refl)
  from scaffolded_sets [OF name assms(3) fresh] ok shape show ?thesis
    unfolding after run name by (simp add: exit_code_def)
qed

theorem scaffold_fresh_witness:
  "dir_name ''order'' \<and> ascii_name ''order'' \<and> py_int ''3003'' = Some 3003
   \<and> tree (files ws_bare)
   \<and> unblocked (files ws_bare) ([''ws''] @ [''services''])
   \<and> files ws_bare ([''ws''] @ [''services'', ''order'']) = None
   \<and> exit_code (fst (main [''ws''] [''create-service.py'', ''order'', ''3003''] ws_bare)) = 0
   \<and> regular_files
        (files (snd (main [''ws''] [''create-service.py'', ''order'', ''3003''] ws_bare))) =
       regular_files (files ws_bare) \<union>
       {[''ws''] @ [''services'', ''order'', ''package.json''],
        [''ws''] @ [''services'', ''order'', ''.env''],
        [''ws''] @ [''services'', ''order'', ''index.js''],
        [''ws''] @ [''services'', ''order'', ''config'', ''express.config.js''],
        [''ws''] @ [''services'', ''order'', ''index.route.js''],
        [''ws''] @ [''services'', ''order'', ''README.md'']}"
proof -
  have ub: "unblocked (files ws_bare) ([''ws''] @ [''services''])"
    using unblocked_ws_bare by simp
  have fresh: "files ws_bare ([''ws''] @ [''services'', ''order'']) = None"
    by (simp add: ws_bare_def)
  note made = scaffold_fresh [OF dir_name_order py_int_3003 tree_ws_bare ub fresh refl,
      of "''create-service.py''"]
  from made have status: "exit_code
      (fst (main [''ws''] [''create-service.py'', ''order'', ''3003''] ws_bare)) = 0"
    by (rule conjunct1)
  from made have written: "regular_files
        (files (snd (main [''ws''] [''create-service.py'', ''order'', ''3003''] ws_bare))) =
       regular_files (files ws_bare) \<union>
       {[''ws''] @ [''services'', ''order'', ''package.json''],
        [''ws''] @ [''services'', ''order'', ''.env''],
        [''ws''] @ [''services'', ''order'', ''index.js''],
        [''ws''] @ [''services'', ''order'', ''config'', ''express.config.js''],
        [''ws''] @ [''services'', ''order'', ''index.route.js''],
        [''ws''] @ [''services'', ''order'', ''README.md'']}"
    by (elim conjE)
  have "ascii_name ''order''"
    by (simp add: ascii_name_def)
  with dir_name_order py_int_3003 tree_ws_bare ub fresh status written show ?thesis
    by (intro conjI)
qed

text \<open>
  Against C1 as first stated. In \<open>ws_order_file\<close> no directory is at \<open>services/order\<close>,
  yet the run exits with status 1 and changes nothing. In \<open>ws_clean\<close>, which holds no
  regular file, the run exits with status 0 and leaves six regular files, not seven. In
  \<open>ws_order_link\<close> and in \<open>ws_services_file\<close> no directory is at \<open>services/order\<close>
  either, and the run exits with status 1. With the empty name, which no entry of the
  services root of \<open>ws_clean\<close> has, and with a port of 4301 digits, the run in
  \<open>ws_clean\<close> exits with status 1. With the name \<open>/srv\<close> the run in \<open>ws_clean\<close> exits
  with status 0, and the six files it leaves are under \<open>/srv\<close>, not under the services
  root.
\<close>

theorem seven_files_counterexample:
  "\<not> is_dir (files ws_order_file) (service_dir [''ws''] ''order'')
   \<and> exit_code (fst (main [''ws''] [''create-service.py'', ''order'', ''3003''] ws_order_file)) = 1
   \<and> files (snd (main [''ws''] [''create-service.py'', ''order'', ''3003''] ws_order_file)) =
       files ws_order_file
   \<and> regular_files (files ws_clean) = {}
   \<and> exit_code (fst (main [''ws''] [''create-service.py'', ''order'', ''3003''] ws_clean)) = 0
   \<and> card (regular_files
        (files (snd (main [''ws''] [''create-service.py'', ''order'', ''3003''] ws_clean)))) = 6
   \<and> \<not> is_dir (files ws_order_link) (service_dir [''ws''] ''order'')
   \<and> exit_code (fst (main [''ws''] [''create-service.py'', ''order'', ''3003''] ws_order_link)) = 1
   \<and> \<not> is_dir (files ws_services_file) (service_dir [''ws''] ''order'')
   \<and> exit_code (fst (main [''ws''] [''create-service.py'', ''order'', ''3003''] ws_services_file))
       = 1
   \<and> {c. files ws_clean [''ws'', ''services'', c] \<noteq> None} = {}
   \<and> exit_code (fst (main [''ws''] [''create-service.py'', [], ''3003''] ws_clean)) = 1
   \<and> exit_code (fst (main [''ws''] [''create-service.py'', ''order'', long_port] ws_clean)) = 1
   \<and> exit_code (fst (main [''ws''] [''create-service.py'', ''/srv'', ''3003''] ws_clean)) = 0
   \<and> regular_files
        (files (snd (main [''ws''] [''create-service.py'', ''/srv'', ''3003''] ws_clean))) =
       {[''srv'', ''package.json''], [''srv'', ''.env''], [''srv'', ''index.js''],
        [''srv'', ''config'', ''express.config.js''], [''srv'', ''index.route.js''],
        [''srv'', ''README.md'']}"
proof -
  have stat: "os_stat (files ws_order_file) (service_dir [''ws''] ''order'')
      = Inr (File ''notes'')"
    using stat_order_file by (simp add: service_dir_order)
  then have "path_exists (files ws_order_file) (service_dir [''ws''] ''order'')"
    by (simp add: path_exists_def)
  then have refused: "main [''ws''] [''create-service.py'', ''order'', ''3003''] ws_order_file =
      (SysExit 1, ws_order_file\<lparr>stdout := stdout ws_order_file @
        [''Error: Service '' @ [CHR 0x27] @ ''order'' @ [CHR 0x27] @ '' already exists'']\<rparr>)"
    by (simp add: main_three [OF py_int_3003] create_service_exists)
  have none: "regular_files (files ws_clean) = {}"
    by (auto simp: regular_files_def ws_clean_def is_file_def split: if_splits)
  have ub: "unblocked (files ws_clean) ([''ws''] @ [''services''])"
    using unblocked_ws_clean by simp
  from create_service_fresh [OF service_dir_order tree_ws_clean ub fresh_ws_clean, of 3003]
  have ok: "fst (create_service [''ws''] ''order'' 3003 ws_clean) = Returned"
    and after: "files (snd (create_service [''ws''] ''order'' 3003 ws_clean)) =
      scaffolded (files ws_clean) [''ws''] ''order'' 3003"
    by simp_all
  have six: "card (regular_files (scaffolded (files ws_clean) [''ws''] ''order'' 3003)) = 6"
    unfolding scaffolded_sets(1) [OF service_dir_order tree_ws_clean fresh_ws_clean] none
    by (simp add: service_dir_order)
  have link: "\<not> is_dir (files ws_order_link) (service_dir [''ws''] ''order'')"
    by (simp add: is_dir_def service_dir_order stat_order_link)
  have blocked: "\<not> is_dir (files ws_services_file) (service_dir [''ws''] ''order'')"
    by (simp add: is_dir_def service_dir_order stat_under_file)
  have empty: "{c. files ws_clean [''ws'', ''services'', c] \<noteq> None} = {}"
    by (simp add: ws_clean_def)
  show ?thesis
    using stat refused none ok after six link blocked empty
    by (simp add: is_dir_def exit_code_def main_three [OF py_int_3003]
        create_service_order_link create_service_services_file create_service_empty_name
        main_long_port create_service_absolute)
qed

text \<open>
  C2. When the destination \<open>services/<name>\<close> is a directory, a run with two arguments
  leaves the file system as it was and the process exits with a status other than 0,
  whatever the port argument is: the check comes before any write.
\<close>

theorem existing_directory_untouched:
  "length argv = 3 \<Longrightarrow> is_dir (files w) (service_dir root (argv ! 1)) \<Longrightarrow>
     files (snd (main root argv w)) = files w \<and> exit_code (fst (main root argv w)) \<noteq> 0"
  by (cases "py_int (argv ! 2)")
    (simp_all add: main_def main_block_def print_def sys_exit_def exit_code_def create_service_exists
      is_dir_exists)

theorem existing_directory_untouched_witness:
  "length [''create-service.py'', ''order'', ''3003''] = 3
   \<and> is_dir (files ws_order_dir)
       (service_dir [''ws''] ([''create-service.py'', ''order'', ''3003''] ! 1))
   \<and> files (snd (main [''ws''] [''create-service.py'', ''order'', ''3003''] ws_order_dir))
       = files ws_order_dir
   \<and> exit_code (fst (main [''ws''] [''create-service.py'', ''order'', ''3003''] ws_order_dir))
       \<noteq> 0"
  using existing_directory_untouched
    [of "[''create-service.py'', ''order'', ''3003'']" ws_order_dir "[''ws'']"]
  by (simp add: is_dir_def service_dir_order stat_order_dir)

text \<open>
  C3. When \<open>int\<close> rejects the port argument, the run prints the error, leaves the file
  system as it was and the process exits with a status other than 0.
\<close>

theorem invalid_port:
  "length argv = 3 \<Longrightarrow> py_int (argv ! 2) = None \<Longrightarrow>
     main root argv w =
       (SysExit 1, w\<lparr>stdout := stdout w @ [''Error: Port must be a number'']\<rparr>)
     \<and> files (snd (main root argv w)) = files w
     \<and> exit_code (fst (main root argv w)) \<noteq> 0"
  by (simp add: main_def main_block_def print_def sys_exit_def exit_code_def)

theorem invalid_port_witness:
  "length [''create-service.py'', ''order'', ''30a3''] = 3
   \<and> py_int ([''create-service.py'', ''order'', ''30a3''] ! 2) = None
   \<and> main [''ws''] [''create-service.py'', ''order'', ''30a3''] ws_order_file =
       (SysExit 1, ws_order_file\<lparr>stdout := [''Error: Port must be a number'']\<rparr>)"
  using invalid_port [of "[''create-service.py'', ''order'', ''30a3'']" "[''ws'']" ws_order_file]
  by (simp add: py_int_30a3 ws_order_file_def)

text \<open>
  C4. Whenever the number of positional arguments is not two, that is whenever
  \<open>sys.argv\<close> does not have three entries, the run prints the two usage lines and ends
  with \<open>sys.exit(1)\<close>, so the exit status is not 0. The final state is the initial one
  with those two lines added, and it is the same whatever routine stands in the place of
  \<open>create_service\<close>: the routine is not called.
\<close>

theorem usage_error:
  "length argv \<noteq> 3 \<Longrightarrow>
     main_block scaffold argv w =
       (SysExit 1, w\<lparr>stdout := stdout w @
          [''Usage: python scripts/create-service.py <service-name> <port>'',
           ''Example: python scripts/create-service.py order 3003'']\<rparr>)
     \<and> main root argv w = main_block scaffold argv w
     \<and> exit_code (fst (main root argv w)) \<noteq> 0"
  by (simp add: main_def main_block_def print_def sys_exit_def exit_code_def)

theorem usage_error_witness:
  "length [''create-service.py'', ''order''] \<noteq> 3
   \<and> main [''ws''] [''create-service.py'', ''order''] ws_order_file =
       (SysExit 1, ws_order_file\<lparr>stdout :=
          [''Usage: python scripts/create-service.py <service-name> <port>'',
           ''Example: python scripts/create-service.py order 3003'']\<rparr>)
   \<and> main [''ws''] [''create-service.py'', ''order''] ws_order_file =
       main_block (\<lambda>service_name port. sys_exit 0) [''create-service.py'', ''order'']
         ws_order_file
   \<and> exit_code (fst (main [''ws''] [''create-service.py'', ''order''] ws_order_file)) \<noteq> 0"
  using usage_error [of "[''create-service.py'', ''order'']"
      "\<lambda>service_name port. sys_exit 0" ws_order_file "[''ws'']"]
  by (simp add: ws_order_file_def exit_code_def)

text \<open>
  C5. After every run of \<open>create_service\<close> that ends normally, \<open>package.json\<close> in the
  service directory holds a valid JSON text, and the \<open>name\<close> member of the object it
  stands for is the string made of the service name followed by \<open>-service\<close>, whatever
  characters the service name has.
\<close>

theorem package_json_valid:
  "create_service root service_name port w = (Returned, w') \<Longrightarrow>
     \<exists>content v.
       files w' (service_dir root service_name @ [''package.json'']) = Some (File content)
       \<and> json_parse content = Some v
       \<and> json_field ''name'' v = Some (JString (codes (service_name @ ''-service'')))"
proof -
  assume "create_service root service_name port w = (Returned, w')"
  from create_service_Returned [OF this]
  have "files w' (service_dir root service_name @ [''package.json'']) =
      Some (File (json_dumps 2 0 (package_json service_name)))"
    by auto
  with package_json_parses [of service_name] package_json_name [of service_name]
  show ?thesis
    by blast
qed

theorem package_json_valid_witness:
  "create_service [''ws''] ''order'' 3003 ws_clean =
     (Returned, snd (create_service [''ws''] ''order'' 3003 ws_clean))
   \<and> (\<exists>content v.
       files (snd (create_service [''ws''] ''order'' 3003 ws_clean))
         (service_dir [''ws''] ''order'' @ [''package.json'']) = Some (File content)
       \<and> json_parse content = Some v
       \<and> json_field ''name'' v = Some (JString (codes (''order'' @ ''-service''))))"
  using package_json_valid [OF returned_ws_clean] returned_ws_clean by blast

text \<open>
  C6. After every run of \<open>create_service\<close> that ends normally, one of the lines of
  \<open>.env\<close> in the service directory is \<open>PORT=\<close> followed by the decimal rendering of the
  port: a numeral that \<open>read_decimal\<close> reads as the port, and the only string it reads
  so.
\<close>

theorem env_port_line_written:
  "create_service root service_name port w = (Returned, w') \<Longrightarrow>
     \<exists>content rendering.
       files w' (service_dir root service_name @ [''.env'']) = Some (File content)
       \<and> ''PORT='' @ rendering \<in> set (text_lines content)
       \<and> read_decimal rendering = Some port
       \<and> (\<forall>other. read_decimal other = Some port \<longrightarrow> other = rendering)"
proof -
  assume "create_service root service_name port w = (Returned, w')"
  from create_service_Returned [OF this]
  have written: "files w' (service_dir root service_name @ [''.env'']) =
      Some (File (env_content service_name port))"
    by auto
  have only: "\<forall>other. read_decimal other = Some port \<longrightarrow> other = py_str port"
    using read_decimal_is_py_str by blast
  from written env_port_line [of port service_name] read_decimal_py_str [of port] only
  show ?thesis
    by blast
qed

theorem env_port_line_written_witness:
  "create_service [''ws''] ''order'' 3003 ws_clean =
     (Returned, snd (create_service [''ws''] ''order'' 3003 ws_clean))
   \<and> (\<exists>content.
       files (snd (create_service [''ws''] ''order'' 3003 ws_clean))
         (service_dir [''ws''] ''order'' @ [''.env'']) = Some (File content)
       \<and> ''PORT=3003'' \<in> set (text_lines content))
   \<and> read_decimal ''3003'' = Some 3003"
proof -
  from env_port_line_written [OF returned_ws_clean]
  obtain content rendering where
    written: "files (snd (create_service [''ws''] ''order'' 3003 ws_clean))
      (service_dir [''ws''] ''order'' @ [''.env'']) = Some (File content)"
    and line: "''PORT='' @ rendering \<in> set (text_lines content)"
    and only: "\<forall>other. read_decimal other = Some 3003 \<longrightarrow> other = rendering"
    by blast
  from only read_decimal_3003 have "rendering = ''3003''"
    by blast
  with line have "''PORT=3003'' \<in> set (text_lines content)"
    by simp
  with written returned_ws_clean read_decimal_3003 show ?thesis
    by blast
qed



text \<open>
  C8, amended. Take a service name that is a directory name, a port argument that \<open>int\<close>
  accepts, and a well-formed file system with nothing at \<open>services/<name>\<close> and nothing
  but directories at the services root or above it. Run twice with the same arguments,
  the script ends normally the first time; the second time it prints that the service
  already exists and ends with \<open>sys.exit(1)\<close>, and the file system after the second run is
  the one the first run left.

  As first stated, the property holds for every pair of a name and a port and every
  start without a \<open>services/<name>\<close> entry; the first run fails for some of them.
\<close>

theorem rerun_refused:
  assumes "dir_name service_name" and "py_int port_arg = Some port"
    and "tree (files w)" and "unblocked (files w) (root @ [''services''])"
    and "files w (root @ [''services'', service_name]) = None"
    and "w1 = snd (main root [prog, service_name, port_arg] w)"
  shows "fst (main root [prog, service_name, port_arg] w) = Returned
    \<and> main root [prog, service_name, port_arg] w1 =
        (SysExit 1, w1\<lparr>stdout := stdout w1 @
           [''Error: Service '' @ [CHR 0x27] @ service_name @ [CHR 0x27]
            @ '' already exists'']\<rparr>)
    \<and> files (snd (main root [prog, service_name, port_arg] w1)) = files w1"
proof -
  note name = service_dir_name [OF assms(1), of root]
  have fresh: "files w (service_dir root service_name) = None"
    using assms(5) by (simp add: name)
  have run: "\<And>v. main root [prog, service_name, port_arg] v =
      create_service root service_name port v"
    using assms(2) by (rule main_three)
  note first = create_service_fresh [OF name assms(3) assms(4) fresh, of port]
  have "files w1 = scaffolded (files w) root service_name port"
    using first(2) by (simp add: assms(6) run)
  with dirs_to_scaffolded [OF name assms(4), of port]
  have "path_exists (files w1) (service_dir root service_name)"
    by (simp add: dirs_to_is_dir is_dir_exists)
  then have "create_service root service_name port w1 =
      (SysExit 1, w1\<lparr>stdout := stdout w1 @
         [''Error: Service '' @ [CHR 0x27] @ service_name @ [CHR 0x27]
          @ '' already exists'']\<rparr>)"
    by (rule create_service_exists)
  with first(1) show ?thesis
    by (simp add: run)
qed

theorem rerun_refused_witness:
  "dir_name ''order'' \<and> py_int ''3003'' = Some 3003 \<and> tree (files ws_bare)
   \<and> unblocked (files ws_bare) ([''ws''] @ [''services''])
   \<and> files ws_bare ([''ws''] @ [''services'', ''order'']) = None
   \<and> fst (main [''ws''] [''create-service.py'', ''order'', ''3003''] ws_bare) = Returned
   \<and> fst (main [''ws''] [''create-service.py'', ''order'', ''3003'']
        (snd (main [''ws''] [''create-service.py'', ''order'', ''3003''] ws_bare))) = SysExit 1
   \<and> files (snd (main [''ws''] [''create-service.py'', ''order'', ''3003'']
        (snd (main [''ws''] [''create-service.py'', ''order'', ''3003''] ws_bare)))) =
       files (snd (main [''ws''] [''create-service.py'', ''order'', ''3003''] ws_bare))"
proof -
  have ub: "unblocked (files ws_bare) ([''ws''] @ [''services''])"
    using unblocked_ws_bare by simp
  have fresh: "files ws_bare ([''ws''] @ [''services'', ''order'']) = None"
    by (simp add: ws_bare_def)
  from rerun_refused [OF dir_name_order py_int_3003 tree_ws_bare ub fresh refl,
      of "''create-service.py''"]
  show ?thesis
    using dir_name_order py_int_3003 tree_ws_bare ub fresh by simp
qed

text \<open>
  Against C8 as first stated: three first runs that fail although nothing is at the
  destination. With a port of 4301 digits the script rejects the port. Under a services
  root that is a regular file the first directory cannot be made and the run ends with
  \<open>NotADirectoryError\<close>. With the empty name, which no entry of the services root has,
  the destination is the services root itself and the first run already ends with the
  already-exists error.
\<close>

theorem first_run_counterexample:
  "files ws_clean [''ws'', ''services'', ''order''] = None
   \<and> main [''ws''] [''create-service.py'', ''order'', long_port] ws_clean =
       (SysExit 1, ws_clean\<lparr>stdout := [''Error: Port must be a number'']\<rparr>)
   \<and> files ws_services_file [''ws'', ''services'', ''order''] = None
   \<and> main [''ws''] [''create-service.py'', ''order'', ''3003''] ws_services_file =
       (Raised ENOTDIR,
        ws_services_file\<lparr>stdout := [''Creating service: order on port 3003'']\<rparr>)
   \<and> {c. files ws_clean [''ws'', ''services'', c] \<noteq> None} = {}
   \<and> main [''ws''] [''create-service.py'', [], ''3003''] ws_clean =
       (SysExit 1, ws_clean\<lparr>stdout := [''Error: Service '' @ [CHR 0x27, CHR 0x27]
          @ '' already exists'']\<rparr>)"
  by (simp add: main_long_port main_three [OF py_int_3003] create_service_services_file
      create_service_empty_name)
    (simp add: ws_clean_def ws_services_file_def)

text \<open>
  C9, amended. The check before the first write is for an entry that \<open>stat\<close> resolves at
  \<open>services/<name>\<close>: whatever \<open>stat\<close> finds there, a directory or a regular file,
  \<open>create_service\<close> prints that the service already exists and ends with \<open>sys.exit(1)\<close>,
  and the file system is as it was.

  As first stated, the property is for an entry of any kind. A dangling link is an entry
  that \<open>stat\<close> does not resolve.
\<close>

theorem existing_entry_refused:
  "os_stat (files w) (service_dir root service_name) = Inr n \<Longrightarrow>
     create_service root service_name port w =
       (SysExit 1, w\<lparr>stdout := stdout w @
          [''Error: Service '' @ [CHR 0x27] @ service_name @ [CHR 0x27] @ '' already exists'']\<rparr>)
     \<and> exit_code (fst (create_service root service_name port w)) \<noteq> 0"
  by (simp add: create_service_exists path_exists_def exit_code_def)

theorem existing_entry_refused_witness:
  "os_stat (files ws_order_file) (service_dir [''ws''] ''order'') = Inr (File ''notes'')
   \<and> create_service [''ws''] ''order'' 3003 ws_order_file =
       (SysExit 1, ws_order_file\<lparr>stdout :=
          [''Error: Service '' @ [CHR 0x27] @ ''order'' @ [CHR 0x27] @ '' already exists'']\<rparr>)"
  using existing_entry_refused [of ws_order_file "[''ws'']" "''order''" "File ''notes''" 3003]
  by (simp add: service_dir_order stat_order_file) (simp add: ws_order_file_def)

text \<open>
  Against C9 as first stated: in \<open>ws_order_link\<close> the entry \<open>services/order\<close> is there, a
  dangling link. \<open>Path.exists()\<close> is false for it, so the script goes on, prints no
  already-exists error, and ends with \<open>FileExistsError\<close> at the first \<open>mkdir\<close>.
\<close>

theorem dangling_link_counterexample:
  "files ws_order_link [''ws'', ''services'', ''order''] = Some Dangling
   \<and> service_dir [''ws''] ''order'' = [''ws'', ''services'', ''order'']
   \<and> create_service [''ws''] ''order'' 3003 ws_order_link =
       (Raised EEXIST, ws_order_link\<lparr>stdout := [''Creating service: order on port 3003'']\<rparr>)"
  by (simp add: create_service_order_link service_dir_order) (simp add: ws_order_link_def)

text \<open>
  C10. On each of the three error paths, a wrong number of arguments, a port argument
  that \<open>int\<close> rejects, and a destination that exists, the exit status is exactly 1.
\<close>

theorem error_exit_status_one:
  "(length argv \<noteq> 3 \<longrightarrow> exit_code (fst (main root argv w)) = 1)
   \<and> (length argv = 3 \<and> py_int (argv ! 2) = None \<longrightarrow> exit_code (fst (main root argv w)) = 1)
   \<and> (length argv = 3 \<and> path_exists (files w) (service_dir root (argv ! 1))
        \<longrightarrow> exit_code (fst (main root argv w)) = 1)"
  by (cases "py_int (argv ! 2)")
    (simp_all add: main_def main_block_def print_def sys_exit_def exit_code_def create_service_exists)

theorem error_exit_status_one_witness:
  "length [''create-service.py''] \<noteq> 3
   \<and> exit_code (fst (main [''ws''] [''create-service.py''] ws_order_file)) = 1
   \<and> length [''create-service.py'', ''order'', ''30a3''] = 3
   \<and> py_int ([''create-service.py'', ''order'', ''30a3''] ! 2) = None
   \<and> exit_code (fst (main [''ws''] [''create-service.py'', ''order'', ''30a3''] ws_order_file)) = 1
   \<and> path_exists (files ws_order_file)
        (service_dir [''ws''] ([''create-service.py'', ''order'', ''3003''] ! 1))
   \<and> exit_code (fst (main [''ws''] [''create-service.py'', ''order'', ''3003''] ws_order_file)) = 1"
  using error_exit_status_one [of "[''create-service.py'']" "[''ws'']" ws_order_file]
    error_exit_status_one [of "[''create-service.py'', ''order'', ''30a3'']" "[''ws'']" ws_order_file]
    error_exit_status_one [of "[''create-service.py'', ''order'', ''3003'']" "[''ws'']" ws_order_file]
  by (simp add: py_int_30a3 path_exists_def service_dir_order stat_order_file)

end
